theory Spec2Isabelle
  imports Complex_Main
begin

section \<open>Data model of the dashboard\<close>

text \<open>
  JavaScript numbers are idealised as exact reals (no NaN, no rounding). A property that a
  JavaScript object may lack is an \<open>option\<close>; \<open>None\<close> is \<open>undefined\<close>.
  Record fields keep the names of the TypeScript types; \<open>id\<close> and \<open>power\<close> carry a prime
  because HOL owns those names.
\<close>

record EnergyData =
  voltage :: real
  current :: real
  batteryLevel :: real
  power' :: real
  temperature :: real
  humidity :: real
  totalConsumption :: real
  energyRemain :: real

text \<open>The value stored under one key of \<open>app/energyData\<close>; every field may be missing.\<close>

record RawEnergy =
  raw_voltage :: "real option"
  raw_current :: "real option"
  raw_batteryLevel :: "real option"
  raw_temperature :: "real option"
  raw_humidity :: "real option"
  raw_totalConsumption :: "real option"
  raw_energyRemain :: "real option"

record SwitchState =
  id' :: int
  name :: "string option"
  state :: bool

text \<open>
  The value stored under one key of \<open>app/switchStates\<close>. \<open>raw_state = None\<close> means the
  object has no own property \<open>state\<close>; a present value is kept as its truthiness.
\<close>

record RawSwitch =
  raw_name :: "string option"
  raw_state :: "bool option"

section \<open>JavaScript helpers\<close>

text \<open>\<open>a ?? b\<close>\<close>

definition nullish :: "'a option \<Rightarrow> 'a \<Rightarrow> 'a" where
  "nullish a b = (case a of None \<Rightarrow> b | Some v \<Rightarrow> v)"

text \<open>Truthiness of an optional number: \<open>undefined\<close> and \<open>0\<close> are falsy.\<close>

definition truthy :: "real option \<Rightarrow> bool" where
  "truthy a = (case a of None \<Rightarrow> False | Some v \<Rightarrow> v \<noteq> 0)"

text \<open>\<open>a < c\<close> where \<open>a\<close> may be \<open>undefined\<close>: the comparison with \<open>undefined\<close> is false.\<close>

definition js_less :: "real option \<Rightarrow> real \<Rightarrow> bool" where
  "js_less a c = (case a of None \<Rightarrow> False | Some v \<Rightarrow> v < c)"

text \<open>\<open>!xs[i]\<close> on an array of booleans: out of range reads \<open>undefined\<close>, whose negation is true.\<close>

definition not_at :: "bool list \<Rightarrow> nat \<Rightarrow> bool" where
  "not_at xs i = (if i < length xs then \<not> xs ! i else True)"

text \<open>
  A JavaScript string is a sequence of UTF-16 code units; the keys of the remote relay map
  are such strings. \<open>codeUnits\<close> gives the code units of an ASCII text.
\<close>

type_synonym jsString = "nat list"

definition codeUnits :: "string \<Rightarrow> jsString" where
  "codeUnits s = map of_char s"

text \<open>
  The Number type of the JavaScript engine is outside the repository. \<open>toNumber\<close> is the
  Number value of a mathematical integer (the integer itself up to \<open>2 ^ 53\<close> in
  magnitude, a rounded one beyond), given by its value, with \<open>2 ^ 1024\<close> and its negative
  for the two infinities; \<open>numberToString\<close> is the text of such a Number in a template
  literal.
\<close>

record JsEngine =
  toNumber :: "int \<Rightarrow> int"
  numberToString :: "int \<Rightarrow> string"

text \<open>
  The code units that \<open>parseInt\<close> skips at the start: white space (TAB, VT, FF, SP, NBSP,
  U+1680, U+2000 to U+200A, U+202F, U+205F, U+3000, U+FEFF) and line terminators (LF, CR,
  U+2028, U+2029).
\<close>

definition isWhiteSpace :: "nat \<Rightarrow> bool" where
  "isWhiteSpace c =
     (c \<in> {9, 10, 11, 12, 13, 32, 160, 5760, 8232, 8233, 8239, 8287, 12288, 65279}
      \<or> (8192 \<le> c \<and> c \<le> 8202))"

definition digitValue :: "nat \<Rightarrow> nat option" where
  "digitValue c = (if 48 \<le> c \<and> c \<le> 57 then Some (c - 48) else None)"

fun digitsPrefix :: "jsString \<Rightarrow> nat list" where
  "digitsPrefix [] = []"
| "digitsPrefix (c # cs) =
     (case digitValue c of None \<Rightarrow> [] | Some d \<Rightarrow> d # digitsPrefix cs)"

text \<open>
  \<open>parseInt(s, 10)\<close>: leading white space is skipped, one sign (code unit 45 or 43) is
  read, then the longest run of decimal digits; no digit gives NaN, here \<open>None\<close>;
  otherwise the result is the Number value of the signed integer that the digits denote.
\<close>

definition parseInt :: "JsEngine \<Rightarrow> jsString \<Rightarrow> int option" where
  "parseInt eng s =
     (let t = dropWhile isWhiteSpace s;
          neg = (t \<noteq> [] \<and> hd t = 45);
          u = (if t \<noteq> [] \<and> (hd t = 45 \<or> hd t = 43) then tl t else t);
          ds = digitsPrefix u
      in if ds = [] then None
         else let v = int (foldl (\<lambda>acc d. 10 * acc + d) 0 ds)
              in Some (toNumber eng (if neg then - v else v)))"

definition digitChar :: "nat \<Rightarrow> char" where
  "digitChar d = ''0123456789'' ! d"

fun natToString :: "nat \<Rightarrow> string" where
  "natToString n =
     (if n < 10 then [digitChar n] else natToString (n div 10) @ [digitChar (n mod 10)])"

declare natToString.simps [simp del]

text \<open>The decimal digits of an integer, with a minus sign when it is negative.\<close>

definition intToString :: "int \<Rightarrow> string" where
  "intToString i = (if i < 0 then CHR ''-'' # natToString (nat (- i)) else natToString (nat i))"

text \<open>\<open>Array.prototype.findIndex\<close>; \<open>None\<close> is the result \<open>-1\<close>.\<close>

fun findIndex :: "('a \<Rightarrow> bool) \<Rightarrow> 'a list \<Rightarrow> nat option" where
  "findIndex P [] = None"
| "findIndex P (x # xs) =
     (if P x then Some 0 else map_option Suc (findIndex P xs))"

section \<open>Relay state: decoding the remote map (dashboard.tsx, lines 159 to 193)\<close>

text \<open>Line 172, \<open>const newUiState = !s.state\<close>: the stored value is the inverse of the UI value.\<close>

definition newUiState :: "bool \<Rightarrow> bool" where
  "newUiState s_state = (\<not> s_state)"


text \<open>
  The body of the \<open>forEach\<close> over \<open>Object.entries(data)\<close>, on the pair
  \<open>(updatedSwitches, hasChanged)\<close>.
\<close>

definition ingestEntry ::
  "JsEngine \<Rightarrow> SwitchState list \<times> bool \<Rightarrow> jsString \<times> RawSwitch
     \<Rightarrow> SwitchState list \<times> bool" where
  "ingestEntry eng acc e =
     (case parseInt eng (fst e) of
        None \<Rightarrow> acc
      | Some switchId \<Rightarrow>
          (case raw_state (snd e) of
             None \<Rightarrow> acc
           | Some st \<Rightarrow>
               (let updatedSwitches = fst acc in
                case findIndex (\<lambda>sw. id' sw = switchId) updatedSwitches of
                  Some switchIndex \<Rightarrow>
                    if state (updatedSwitches ! switchIndex) \<noteq> newUiState st
                    then (updatedSwitches[switchIndex :=
                            (updatedSwitches ! switchIndex)
                              \<lparr>name := raw_name (snd e), state := newUiState st\<rparr>], True)
                    else acc
                | None \<Rightarrow>
                    (updatedSwitches @
                       [\<lparr>id' = switchId,
                         name = Some (case raw_name (snd e) of
                                        None \<Rightarrow> ''Switch '' @ numberToString eng switchId
                                      | Some n \<Rightarrow>
                                          if n = [] then ''Switch '' @ numberToString eng switchId
                                          else n),
                         state = newUiState st\<rparr>], True))))"

text \<open>
  The updater given to \<open>setSwitches\<close>. The second component is \<open>hasChanged\<close>: when it is
  false the updater returns \<open>prevSwitches\<close> itself and React keeps the held list.
  \<open>data = None\<close> is the snapshot without a value, which the listener skips.
\<close>

definition onSwitchStates ::
  "JsEngine \<Rightarrow> SwitchState list \<Rightarrow> (jsString \<times> RawSwitch) list option
     \<Rightarrow> SwitchState list \<times> bool" where
  "onSwitchStates eng prevSwitches data =
     (case data of
        None \<Rightarrow> (prevSwitches, False)
      | Some entries \<Rightarrow>
          (let r = fold (\<lambda>e acc. ingestEntry eng acc e) entries (prevSwitches, False)
           in if snd r then (sort_key id' (fst r), True) else (prevSwitches, False)))"

text \<open>
  The relay id that one entry of the remote map addresses: none when the key is not a number
  or the value has no \<open>state\<close>, the two cases in which the loop body returns at once.
\<close>

definition entryId :: "JsEngine \<Rightarrow> jsString \<times> RawSwitch \<Rightarrow> int option" where
  "entryId eng e = (if raw_state (snd e) = None then None else parseInt eng (fst e))"

definition observedIds :: "JsEngine \<Rightarrow> (jsString \<times> RawSwitch) list \<Rightarrow> int list" where
  "observedIds eng entries = List.map_filter (entryId eng) entries"

text \<open>What the held list says about relay \<open>k\<close>: the state of the first entry with that id.\<close>

definition heldState :: "SwitchState list \<Rightarrow> int \<Rightarrow> bool option" where
  "heldState held k = map_option state (find (\<lambda>sw. id' sw = k) held)"

text \<open>The held list already shows, for the relay of entry \<open>e\<close>, the decoded state of \<open>e\<close>.\<close>

definition agrees :: "JsEngine \<Rightarrow> SwitchState list \<Rightarrow> jsString \<times> RawSwitch \<Rightarrow> bool" where
  "agrees eng held e =
     (case entryId eng e of
        None \<Rightarrow> True
      | Some k \<Rightarrow> heldState held k = map_option newUiState (raw_state (snd e)))"

section \<open>Relay state: applying a decision and a manual toggle (lines 54 to 65, 195 to 211)\<close>

text \<open>
  One call \<open>updateSwitchState(id, name, state)\<close>: the relay id, the name and the UI state
  that are handed to the server action.
\<close>

type_synonym writeCall = "int \<times> string option \<times> bool"


text \<open>
  \<open>updateSwitchState\<close> is a parameter that tells whether the remote write of a call
  succeeded. \<open>updateAllSwitches\<close> (lines 54 to 65) calls it for every updated switch
  without awaiting: the second component lists the calls in the order they are made, each
  with its outcome, which nothing reads.
\<close>

definition updateAllSwitches ::
  "(int \<Rightarrow> string option \<Rightarrow> bool \<Rightarrow> bool) \<Rightarrow> SwitchState list \<Rightarrow> bool list
     \<Rightarrow> SwitchState list \<times> (writeCall \<times> bool) list" where
  "updateAllSwitches updateSwitchState switches newSwitchDbStates =
     (let updatedSwitches =
            map (\<lambda>(i, s). s\<lparr>state := not_at newSwitchDbStates i\<rparr>)
                (zip [0 ..< length switches] switches)
      in (updatedSwitches,
          map (\<lambda>s. ((id' s, name s, state s), updateSwitchState (id' s) (name s) (state s)))
              updatedSwitches))"

text \<open>
  \<open>handleSwitchChange\<close> (lines 195 to 211): the held list after the call, the calls of
  \<open>updateSwitchState\<close> that were made, and the title of the toast, if one was shown.
\<close>

definition handleSwitchChange ::
  "(int \<Rightarrow> string option \<Rightarrow> bool \<Rightarrow> bool) \<Rightarrow> SwitchState list \<Rightarrow> int \<Rightarrow> bool
     \<Rightarrow> SwitchState list \<times> writeCall list \<times> string option" where
  "handleSwitchChange updateSwitchState switches i checked =
     (case find (\<lambda>s. id' s = i) switches of
        None \<Rightarrow> (switches, [], None)
      | Some targetSwitch \<Rightarrow>
          (let optimistic = map (\<lambda>s. if id' s = i then s\<lparr>state := checked\<rparr> else s) switches
           in if \<not> updateSwitchState i (name targetSwitch) checked
              then (map (\<lambda>s. if id' s = i then s\<lparr>state := \<not> checked\<rparr> else s) optimistic,
                    [(i, name targetSwitch, checked)],
                    Some ''Update Failed'')
              else (optimistic, [(i, name targetSwitch, checked)], None)))"

section \<open>Telemetry (dashboard.tsx, lines 28 to 32 and 126 to 157)\<close>

text \<open>
  Lines 137 to 146. \<open>INITIAL_ENERGY_DATA\<close> comes from lib/data, which is not among the
  sources; it is a parameter.
\<close>

definition newEnergyData :: "EnergyData \<Rightarrow> RawEnergy \<Rightarrow> EnergyData" where
  "newEnergyData INITIAL_ENERGY_DATA latestData =
     \<lparr>voltage = nullish (raw_voltage latestData) (voltage INITIAL_ENERGY_DATA),
      current = nullish (raw_current latestData) (current INITIAL_ENERGY_DATA),
      batteryLevel = nullish (raw_batteryLevel latestData) (batteryLevel INITIAL_ENERGY_DATA),
      power' = (if truthy (raw_voltage latestData) \<and> truthy (raw_current latestData)
                then the (raw_voltage latestData) * the (raw_current latestData)
                else power' INITIAL_ENERGY_DATA),
      temperature = nullish (raw_temperature latestData) (temperature INITIAL_ENERGY_DATA),
      humidity = nullish (raw_humidity latestData) (humidity INITIAL_ENERGY_DATA),
      totalConsumption =
        nullish (raw_totalConsumption latestData) (totalConsumption INITIAL_ENERGY_DATA),
      energyRemain = nullish (raw_energyRemain latestData) (energyRemain INITIAL_ENERGY_DATA)\<rparr>"

text \<open>
  The listener on \<open>app/energyData\<close>. \<open>data = None\<close> is a snapshot without a value or
  without a key: nothing happens. Otherwise the result is the value given to
  \<open>setEnergyData\<close> and whether \<open>handleOptimization(newEnergyData, true)\<close> is called
  (line 150).
\<close>

definition onEnergyValue ::
  "EnergyData \<Rightarrow> real option \<Rightarrow> RawEnergy option \<Rightarrow> (EnergyData \<times> bool) option" where
  "onEnergyValue INITIAL_ENERGY_DATA prevBatteryLevel data =
     (case data of
        None \<Rightarrow> None
      | Some latestData \<Rightarrow>
          Some (newEnergyData INITIAL_ENERGY_DATA latestData,
                case prevBatteryLevel of
                  None \<Rightarrow> False
                | Some p \<Rightarrow> js_less (raw_batteryLevel latestData) 40 \<and> p \<ge> 40))"

text \<open>
  Lines 30 to 32: an effect with the dependency \<open>energyData.batteryLevel\<close>. After a
  render in which the held battery level differs from the one of the render before, it
  stores the held level in the ref \<open>previousBatteryLevel\<close>; otherwise the ref keeps its
  value.
\<close>

definition batteryEffect :: "real \<Rightarrow> real \<Rightarrow> real option \<Rightarrow> real option" where
  "batteryEffect before after ref = (if after \<noteq> before then Some after else ref)"

text \<open>
  The run of the component over a list of snapshots, one flag per snapshot: was the automatic
  optimization requested. The state is the held \<open>energyData\<close> and the ref
  \<open>previousBatteryLevel\<close>. Events are taken one at a time, each after the render and
  the effect of the one before.
\<close>

fun automateEvents ::
  "EnergyData \<Rightarrow> EnergyData \<times> real option \<Rightarrow> RawEnergy option list \<Rightarrow> bool list" where
  "automateEvents INITIAL_ENERGY_DATA st [] = []"
| "automateEvents INITIAL_ENERGY_DATA st (d # ds) =
     (case onEnergyValue INITIAL_ENERGY_DATA (snd st) d of
        None \<Rightarrow> False # automateEvents INITIAL_ENERGY_DATA st ds
      | Some r \<Rightarrow>
          snd r # automateEvents INITIAL_ENERGY_DATA
                    (fst r, batteryEffect (batteryLevel (fst st)) (batteryLevel (fst r)) (snd st))
                    ds)"

text \<open>
  At mount the state is \<open>INITIAL_ENERGY_DATA\<close> and the ref is \<open>null\<close> (line 28), here
  \<open>None\<close>; the effect of lines 30 to 32 runs once after the first render, before the
  listener is subscribed (line 126), and stores the held battery level whatever the ref
  holds: \<open>refAfterMount\<close>.
\<close>

definition refAfterMount :: "EnergyData \<Rightarrow> real option \<Rightarrow> real option" where
  "refAfterMount energyData ref = Some (batteryLevel energyData)"

definition dashboardAutomate :: "EnergyData \<Rightarrow> RawEnergy option list \<Rightarrow> bool list" where
  "dashboardAutomate INITIAL_ENERGY_DATA ds =
     automateEvents INITIAL_ENERGY_DATA
       (INITIAL_ENERGY_DATA, refAfterMount INITIAL_ENERGY_DATA None) ds"

subsection \<open>The earlier listener (unnamed/part_001, lines 129 to 174)\<close>

text \<open>
  The updater given to \<open>setEnergyData\<close>, on the held data \<open>prev\<close> and the ref
  \<open>lowBatteryOptimizationTriggered\<close>; the last component tells whether
  \<open>handleOptimization(true)\<close> is called.
\<close>

definition onEnergyValue_part001 ::
  "EnergyData \<times> bool \<Rightarrow> RawEnergy \<Rightarrow> (EnergyData \<times> bool) \<times> bool" where
  "onEnergyValue_part001 st latestData =
     (let prev = fst st;
          lowBatteryOptimizationTriggered = snd st;
          newBatteryLevel = nullish (raw_batteryLevel latestData) (batteryLevel prev);
          hasJustDropped = (newBatteryLevel < 40 \<and> batteryLevel prev \<ge> 40);
          fire = (hasJustDropped \<and> \<not> lowBatteryOptimizationTriggered);
          triggered = (if fire then True
                       else if newBatteryLevel \<ge> 40 then False
                       else lowBatteryOptimizationTriggered)
      in ((prev\<lparr>voltage := nullish (raw_voltage latestData) (voltage prev),
                current := nullish (raw_current latestData) (current prev),
                batteryLevel := newBatteryLevel,
                power' := (if truthy (raw_voltage latestData) \<and> truthy (raw_current latestData)
                           then the (raw_voltage latestData) * the (raw_current latestData)
                           else power' prev),
                temperature := nullish (raw_temperature latestData) (temperature prev),
                humidity := nullish (raw_humidity latestData) (humidity prev)\<rparr>,
           triggered),
          fire))"

fun automateEvents_part001 :: "EnergyData \<times> bool \<Rightarrow> RawEnergy option list \<Rightarrow> bool list" where
  "automateEvents_part001 st [] = []"
| "automateEvents_part001 st (d # ds) =
     (case d of
        None \<Rightarrow> False # automateEvents_part001 st ds
      | Some latestData \<Rightarrow>
          snd (onEnergyValue_part001 st latestData)
            # automateEvents_part001 (fst (onEnergyValue_part001 st latestData)) ds)"

definition dashboardAutomate_part001 :: "EnergyData \<Rightarrow> RawEnergy option list \<Rightarrow> bool list" where
  "dashboardAutomate_part001 INITIAL_ENERGY_DATA ds =
     automateEvents_part001 (INITIAL_ENERGY_DATA, False) ds"

text \<open>The battery levels that a list of snapshots carries, and whether each carries one.\<close>

definition carriesLevel :: "RawEnergy option \<Rightarrow> bool" where
  "carriesLevel d = (case d of None \<Rightarrow> False | Some latestData \<Rightarrow> raw_batteryLevel latestData \<noteq> None)"

definition levels :: "RawEnergy option list \<Rightarrow> real list" where
  "levels ds = map (\<lambda>d. the (raw_batteryLevel (the d))) ds"

text \<open>A downward crossing of the threshold 40 from \<open>p\<close> to \<open>b\<close>.\<close>

definition crossesDown :: "real \<Rightarrow> real \<Rightarrow> bool" where
  "crossesDown p b = (p \<ge> 40 \<and> b < 40)"

fun crossings :: "real \<Rightarrow> real list \<Rightarrow> bool list" where
  "crossings p [] = []"
| "crossings p (b # bs) = crossesDown p b # crossings b bs"

text \<open>A snapshot that carries a battery level and nothing else.\<close>

definition levelOnly :: "real \<Rightarrow> RawEnergy option" where
  "levelOnly b =
     Some \<lparr>raw_voltage = None, raw_current = None, raw_batteryLevel = Some b,
           raw_temperature = None, raw_humidity = None, raw_totalConsumption = None,
           raw_energyRemain = None\<rparr>"

section \<open>The allocation policy (ai/flows/intelligent-switch-control.ts)\<close>

record IntelligentSwitchControlInput =
  in_voltage :: real
  in_current :: real
  in_batteryLevel :: real
  powerConsumption :: real
  predictedUsage :: real
  in_userPreferences :: string
  in_userUsagePatterns :: string

text \<open>The five states are in the polarity of the store: \<open>false\<close> for ON, \<open>true\<close> for OFF.\<close>

record IntelligentSwitchControlOutput =
  switch1State :: bool
  switch2State :: bool
  switch3State :: bool
  switch4State :: bool
  switch5State :: bool
  reasoning :: string

text \<open>
  The decision is made by a language model that receives the prompt of lines 40 to 73; the
  model is outside the program and is the parameter \<open>prompt\<close>, which gives the output
  that passed the output schema, or \<open>None\<close> when the call fails. The flow (lines 75 to
  85) returns that output as it is, and \<open>intelligentSwitchControl\<close> (lines 36 to 38)
  returns what the flow returns.
\<close>

definition intelligentSwitchControlFlow ::
  "(IntelligentSwitchControlInput \<Rightarrow> IntelligentSwitchControlOutput option)
     \<Rightarrow> IntelligentSwitchControlInput \<Rightarrow> IntelligentSwitchControlOutput option" where
  "intelligentSwitchControlFlow prompt input = prompt input"

definition intelligentSwitchControl ::
  "(IntelligentSwitchControlInput \<Rightarrow> IntelligentSwitchControlOutput option)
     \<Rightarrow> IntelligentSwitchControlInput \<Rightarrow> IntelligentSwitchControlOutput option" where
  "intelligentSwitchControl prompt input = intelligentSwitchControlFlow prompt input"

text \<open>dashboard.tsx, lines 94 and 95: the array built from a decision.\<close>

definition newSwitchDbStates :: "IntelligentSwitchControlOutput \<Rightarrow> bool list" where
  "newSwitchDbStates out =
     [switch1State out, switch2State out, switch3State out, switch4State out, switch5State out]"

text \<open>The number of relays that a list of held switches shows ON.\<close>

definition countOn :: "SwitchState list \<Rightarrow> nat" where
  "countOn sws = length (filter state sws)"

section \<open>Prediction and optimization (dashboard.tsx, lines 34 to 52 and 67 to 117)\<close>

record PredictEnergyConsumptionOutput =
  predictedConsumption :: real
  userUsagePatterns :: string

record Dashboard =
  energyData :: EnergyData
  switches :: "SwitchState list"
  userPreferences :: string
  prediction :: "PredictEnergyConsumptionOutput option"
  isPredictionLoading :: bool
  isOptimizing :: bool
  aiReasoning :: string
  previousBatteryLevel :: "real option"

text \<open>
  The server actions of app/actions, which are not among the sources, as they answer during
  one event: \<open>None\<close> is a result without \<open>success\<close> or without \<open>data\<close>;
  \<open>updateSwitchState\<close> tells whether the write succeeded.
\<close>

record Actions =
  runEnergyPrediction :: "PredictEnergyConsumptionOutput option"
  runIntelligentSwitchControl ::
    "IntelligentSwitchControlInput \<Rightarrow> IntelligentSwitchControlOutput option"
  updateSwitchState :: "int \<Rightarrow> string option \<Rightarrow> bool \<Rightarrow> bool"

text \<open>What an event does beyond the state of the component, in the order it is done.\<close>

datatype effect =
    Toast string
  | PredictionFetch
  | PolicyCall IntelligentSwitchControlInput
  | RemoteWrite int "string option" bool

definition handlePrediction :: "Actions \<Rightarrow> Dashboard \<Rightarrow> Dashboard \<times> effect list" where
  "handlePrediction act d =
     (let d1 = d\<lparr>isPredictionLoading := True, aiReasoning := []\<rparr>
      in case runEnergyPrediction act of
           Some data \<Rightarrow>
             (d1\<lparr>prediction := Some data, isPredictionLoading := False\<rparr>,
              [PredictionFetch, Toast ''Prediction Ready''])
         | None \<Rightarrow>
             (d1\<lparr>isPredictionLoading := False\<rparr>,
              [PredictionFetch, Toast ''Prediction Failed'']))"

text \<open>Lines 84 to 92: the argument of \<open>runIntelligentSwitchControl\<close>.\<close>

definition optimizationInput ::
  "EnergyData \<Rightarrow> string \<Rightarrow> PredictEnergyConsumptionOutput \<Rightarrow> IntelligentSwitchControlInput" where
  "optimizationInput dataForOptimization prefs latestPrediction =
     \<lparr>in_voltage = voltage dataForOptimization,
      in_current = current dataForOptimization,
      in_batteryLevel = batteryLevel dataForOptimization,
      powerConsumption = power' dataForOptimization,
      predictedUsage = predictedConsumption latestPrediction,
      in_userPreferences = prefs,
      in_userUsagePatterns = userUsagePatterns latestPrediction\<rparr>"

text \<open>
  \<open>handleOptimization\<close>, with the promise of the policy call resolved before the next
  event. The prediction that the updater of line 72 sees is the one held after the awaited
  fetch.
\<close>

definition handleOptimization ::
  "Actions \<Rightarrow> Dashboard \<Rightarrow> EnergyData \<Rightarrow> bool \<Rightarrow> Dashboard \<times> effect list" where
  "handleOptimization act d dataForOptimization isAutomatic =
     (let r = (if prediction d = None then handlePrediction act d else (d, []));
          d1 = fst r
      in case prediction d1 of
           None \<Rightarrow>
             (d1\<lparr>isOptimizing := False\<rparr>, snd r @ [Toast ''Cannot Optimize''])
         | Some latestPrediction \<Rightarrow>
             (let input = optimizationInput dataForOptimization (userPreferences d1)
                            latestPrediction
              in case runIntelligentSwitchControl act input of
                   Some out \<Rightarrow>
                     (let u = updateAllSwitches (updateSwitchState act) (switches d1)
                                (newSwitchDbStates out)
                      in (d1\<lparr>switches := fst u, aiReasoning := reasoning out,
                              isOptimizing := False\<rparr>,
                          snd r @ [PolicyCall input]
                            @ map (\<lambda>c. RemoteWrite (fst (fst c)) (fst (snd (fst c)))
                                        (snd (snd (fst c)))) (snd u)
                            @ [Toast (if isAutomatic then ''Low Battery Action''
                                      else ''Optimization Complete'')]))
                 | None \<Rightarrow>
                     (d1\<lparr>isOptimizing := False\<rparr>,
                      snd r @ [PolicyCall input, Toast ''Optimization Failed''])))"

text \<open>
  The events of the component: a value of \<open>app/energyData\<close>, a value of
  \<open>app/switchStates\<close>, the request for a prediction, the request for an optimization,
  and a manual toggle.
\<close>

datatype event =
    EnergyValue "RawEnergy option"
  | SwitchStatesValue "(jsString \<times> RawSwitch) list option"
  | PredictRequested
  | OptimizeRequested
  | SwitchChange int bool

text \<open>
  One event, with the answers the server actions give during it. After the event the
  component renders, and the effect of lines 30 to 32 runs.
\<close>

definition dashboardStep ::
  "EnergyData \<Rightarrow> JsEngine \<Rightarrow> Actions \<Rightarrow> Dashboard \<Rightarrow> event \<Rightarrow> Dashboard \<times> effect list" where
  "dashboardStep INITIAL_ENERGY_DATA eng act d ev =
     (let r =
        (case ev of
           EnergyValue data \<Rightarrow>
             (case onEnergyValue INITIAL_ENERGY_DATA (previousBatteryLevel d) data of
                None \<Rightarrow> (d, [])
              | Some n \<Rightarrow>
                  if snd n then handleOptimization act (d\<lparr>energyData := fst n\<rparr>) (fst n) True
                  else (d\<lparr>energyData := fst n\<rparr>, []))
         | SwitchStatesValue data \<Rightarrow>
             (d\<lparr>switches := fst (onSwitchStates eng (switches d) data)\<rparr>, [])
         | PredictRequested \<Rightarrow> handlePrediction act d
         | OptimizeRequested \<Rightarrow> handleOptimization act d (energyData d) False
         | SwitchChange i checked \<Rightarrow>
             (let h = handleSwitchChange (updateSwitchState act) (switches d) i checked
              in (case find (\<lambda>s. id' s = i) (switches d) of
                    None \<Rightarrow> (d, [])
                  | Some targetSwitch \<Rightarrow>
                      (d\<lparr>switches := fst h, aiReasoning := []\<rparr>,
                       map (\<lambda>c. RemoteWrite (fst c) (fst (snd c)) (snd (snd c))) (fst (snd h))
                         @ (case snd (snd h) of None \<Rightarrow> [] | Some t \<Rightarrow> [Toast t])))))
      in ((fst r)\<lparr>previousBatteryLevel :=
                     batteryEffect (batteryLevel (energyData d)) (batteryLevel (energyData (fst r)))
                       (previousBatteryLevel d)\<rparr>,
          snd r))"

fun dashboardRun ::
  "EnergyData \<Rightarrow> JsEngine \<Rightarrow> Dashboard \<Rightarrow> (Actions \<times> event) list \<Rightarrow> Dashboard \<times> effect list" where
  "dashboardRun INITIAL_ENERGY_DATA eng d [] = (d, [])"
| "dashboardRun INITIAL_ENERGY_DATA eng d (x # xs) =
     (let r = dashboardStep INITIAL_ENERGY_DATA eng (fst x) d (snd x);
          rest = dashboardRun INITIAL_ENERGY_DATA eng (fst r) xs
      in (fst rest, snd r @ snd rest))"

text \<open>
  The component after its first render and the effects of mount: the ref holds the initial
  battery level (lines 30 to 32) and the initial prediction has been requested (lines 119 to
  121). \<open>INITIAL_SWITCHES\<close> comes from lib/data, as \<open>INITIAL_ENERGY_DATA\<close> does.
\<close>

definition mountDashboard ::
  "EnergyData \<Rightarrow> SwitchState list \<Rightarrow> Actions \<Rightarrow> Dashboard \<times> effect list" where
  "mountDashboard INITIAL_ENERGY_DATA INITIAL_SWITCHES act =
     handlePrediction act
       \<lparr>energyData = INITIAL_ENERGY_DATA,
        switches = INITIAL_SWITCHES,
        userPreferences = ''Prioritize extending battery life and reducing cost. Only turn on essential appliances if battery is below 40%.'',
        prediction = None,
        isPredictionLoading = False,
        isOptimizing = False,
        aiReasoning = [],
        previousBatteryLevel = refAfterMount INITIAL_ENERGY_DATA None\<rparr>"

section \<open>The device (unnamed/part_000)\<close>

datatype level = LOW | HIGH

text \<open>
  What the callback reads from the stream: the path, the type, the value read as a boolean,
  and for a JSON object its keys with the boolean under \<open>key/state\<close>, if there is one.
\<close>

record StreamData =
  dataPath :: string
  dataType :: string
  toBool :: bool
  toJson :: "(string \<times> bool option) list"

definition endsWith :: "string \<Rightarrow> string \<Rightarrow> bool" where
  "endsWith s suffix = (length suffix \<le> length s \<and> drop (length s - length suffix) s = suffix)"

definition startsWith :: "string \<Rightarrow> string \<Rightarrow> bool" where
  "startsWith s pre = (take (length pre) s = pre)"

text \<open>
  \<open>String::toInt\<close> returns \<open>atol\<close> of the text: white space of C is skipped, one sign
  is read, then the longest run of decimal digits; without a digit the result is 0, and a
  value that a 32-bit \<open>long\<close> cannot hold is replaced by the nearest one it can.
\<close>

definition isspace :: "char \<Rightarrow> bool" where
  "isspace c = (of_char c \<in> {9, 10, 11, 12, 13, 32 :: nat})"

definition isdigit :: "char \<Rightarrow> nat option" where
  "isdigit c =
     (let n = (of_char c :: nat) in if 48 \<le> n \<and> n \<le> 57 then Some (n - 48) else None)"

fun leadingDigits :: "string \<Rightarrow> nat list" where
  "leadingDigits [] = []"
| "leadingDigits (c # cs) =
     (case isdigit c of None \<Rightarrow> [] | Some d \<Rightarrow> d # leadingDigits cs)"

definition atol :: "string \<Rightarrow> int" where
  "atol s =
     (let t = dropWhile isspace s;
          neg = (t \<noteq> [] \<and> hd t = CHR ''-'');
          u = (if t \<noteq> [] \<and> (hd t = CHR ''-'' \<or> hd t = CHR ''+'') then tl t else t);
          v = int (foldl (\<lambda>acc d. 10 * acc + d) 0 (leadingDigits u))
      in max (- 2147483648) (min 2147483647 (if neg then - v else v)))"

definition toInt :: "string \<Rightarrow> int" where
  "toInt s = atol s"

text \<open>The first sketch of the file (lines 1 to 236), an example firmware.\<close>

definition getPinForSwitch_example :: "int \<Rightarrow> int" where
  "getPinForSwitch_example switchId =
     (if switchId = 1 then 23 else if switchId = 2 then 22 else if switchId = 3 then 21
      else if switchId = 4 then 19 else if switchId = 5 then 18 else - 1)"

text \<open>The list of \<open>digitalWrite(pin, level)\<close> calls that one stream event causes.\<close>

definition streamCallback_example :: "StreamData \<Rightarrow> (int \<times> level) list" where
  "streamCallback_example data =
     (if endsWith (dataPath data) ''/state'' then
        (let switchId = toInt (drop 1 (take (length (dataPath data) - 6) (dataPath data)));
             switchState = toBool data;
             pin = getPinForSwitch_example switchId
         in if switchId > 0 \<and> pin \<noteq> - 1 then [(pin, if switchState then HIGH else LOW)] else [])
      else if dataType data = ''json'' then
        concat (map (\<lambda>kv. let switchId = toInt (fst kv); pin = getPinForSwitch_example switchId
                           in if switchId > 0
                              then (case snd kv of
                                      None \<Rightarrow> []
                                    | Some switchState \<Rightarrow>
                                        if pin \<noteq> - 1
                                        then [(pin, if switchState then HIGH else LOW)] else [])
                              else [])
                    (toJson data))
      else [])"

text \<open>The second sketch of the file (lines 237 to 583), the firmware of the device.\<close>

definition getPinForSwitch :: "int \<Rightarrow> int" where
  "getPinForSwitch switchId =
     (if switchId = 1 then 13 else if switchId = 2 then 14 else if switchId = 3 then 27
      else if switchId = 4 then 26 else if switchId = 5 then 25 else - 1)"

definition streamCallback :: "StreamData \<Rightarrow> (int \<times> level) list" where
  "streamCallback data =
     (if endsWith (dataPath data) ''/state'' then
        (let p = take (length (dataPath data) - 6) (dataPath data);
             switchId = toInt (if startsWith p ''/'' then drop 1 p else p);
             switchState = (dataType data = ''boolean'' \<and> toBool data);
             pin = getPinForSwitch switchId
         in if switchId > 0 \<and> pin \<noteq> - 1 then [(pin, if switchState then LOW else HIGH)] else [])
      else if dataType data = ''json'' \<and> dataPath data = ''/'' then
        concat (map (\<lambda>kv. let switchId = toInt (fst kv); pin = getPinForSwitch switchId
                           in if switchId > 0
                              then (case snd kv of
                                      None \<Rightarrow> []
                                    | Some switchState \<Rightarrow>
                                        if pin \<noteq> - 1
                                        then [(pin, if switchState then LOW else HIGH)] else [])
                              else [])
                    (toJson data))
      else [])"

text \<open>The path under which the store announces a change of the state of relay \<open>k\<close>.\<close>

definition statePath :: "int \<Rightarrow> string" where
  "statePath k = ''/'' @ intToString k @ ''/state''"


section \<open>Example inputs\<close>

text \<open>Concrete data for the examples below.\<close>

definition zeroEnergy :: EnergyData where
  "zeroEnergy =
     \<lparr>voltage = 0, current = 0, batteryLevel = 0, power' = 0, temperature = 0, humidity = 0,
      totalConsumption = 0, energyRemain = 0\<rparr>"

definition chargedEnergy :: EnergyData where
  "chargedEnergy =
     \<lparr>voltage = 12, current = 2, batteryLevel = 80, power' = 24, temperature = 25,
      humidity = 60, totalConsumption = 0, energyRemain = 0\<rparr>"

definition fiveSwitchesOff :: "SwitchState list" where
  "fiveSwitchesOff =
     [\<lparr>id' = 1, name = Some ''Switch 1'', state = False\<rparr>,
      \<lparr>id' = 2, name = Some ''Switch 2'', state = False\<rparr>,
      \<lparr>id' = 3, name = Some ''Switch 3'', state = False\<rparr>,
      \<lparr>id' = 4, name = Some ''Switch 4'', state = False\<rparr>,
      \<lparr>id' = 5, name = Some ''Switch 5'', state = False\<rparr>]"

definition twoSwitches :: "SwitchState list" where
  "twoSwitches =
     [\<lparr>id' = 1, name = Some ''Light'', state = False\<rparr>,
      \<lparr>id' = 3, name = Some ''Fan'', state = False\<rparr>]"

definition remoteMap :: "(jsString \<times> RawSwitch) list" where
  "remoteMap =
     [(codeUnits ''2'', \<lparr>raw_name = None, raw_state = Some True\<rparr>),
      (codeUnits ''3'', \<lparr>raw_name = Some ''Pump'', raw_state = Some False\<rparr>)]"

text \<open>A remote map with the two keys \<open>1\<close> and \<open>01\<close>, in the order of \<open>Object.entries\<close>.\<close>

definition collidingMap :: "(jsString \<times> RawSwitch) list" where
  "collidingMap =
     [(codeUnits ''1'', \<lparr>raw_name = Some ''Light'', raw_state = Some False\<rparr>),
      (codeUnits ''01'', \<lparr>raw_name = Some ''Light'', raw_state = Some True\<rparr>)]"

definition mixedSwitches :: "SwitchState list" where
  "mixedSwitches =
     [\<lparr>id' = 1, name = Some ''Light'', state = True\<rparr>,
      \<lparr>id' = 2, name = Some ''Fridge'', state = False\<rparr>,
      \<lparr>id' = 3, name = Some ''Fan'', state = True\<rparr>,
      \<lparr>id' = 4, name = Some ''Pump'', state = True\<rparr>,
      \<lparr>id' = 5, name = Some ''Heater'', state = False\<rparr>]"

text \<open>
  An engine that rounds an integer to the nearest Number, ties to the even one, and prints
  an integer Number with all its digits. It agrees with every engine on the integers of
  magnitude up to \<open>2 ^ 53\<close>, the only ones on which the examples use it.
\<close>

fun bitLength :: "nat \<Rightarrow> nat" where
  "bitLength n = (if n = 0 then 0 else Suc (bitLength (n div 2)))"

declare bitLength.simps [simp del]

definition roundToDouble :: "int \<Rightarrow> int" where
  "roundToDouble i =
     (let n = nat \<bar>i\<bar>;
          e = bitLength n - 53;
          q = n div 2 ^ e;
          r = n mod 2 ^ e;
          m = (if 2 * r > 2 ^ e \<or> (2 * r = 2 ^ e \<and> odd q) then q + 1 else q);
          v = (if m * 2 ^ e \<ge> 2 ^ 1024 then 2 ^ 1024 else m * 2 ^ e)
      in if i < 0 then - int v else int v)"

definition exampleEngine :: JsEngine where
  "exampleEngine =
     \<lparr>toNumber = roundToDouble,
      numberToString = (\<lambda>n. if n = 2 ^ 1024 then ''Infinity''
                             else if n = - (2 ^ 1024) then ''-Infinity''
                             else intToString n)\<rparr>"

definition noForecast :: Actions where
  "noForecast =
     \<lparr>runEnergyPrediction = None,
      runIntelligentSwitchControl = (\<lambda>input. None),
      updateSwitchState = (\<lambda>i n b. True)\<rparr>"

definition withForecast :: Actions where
  "withForecast =
     \<lparr>runEnergyPrediction = Some \<lparr>predictedConsumption = 10, userUsagePatterns = ''evening peak''\<rparr>,
      runIntelligentSwitchControl = (\<lambda>input. None),
      updateSwitchState = (\<lambda>i n b. True)\<rparr>"

definition allOnPolicy :: Actions where
  "allOnPolicy =
     \<lparr>runEnergyPrediction = Some \<lparr>predictedConsumption = 10, userUsagePatterns = ''evening peak''\<rparr>,
      runIntelligentSwitchControl =
        (\<lambda>input. Some \<lparr>switch1State = False, switch2State = False, switch3State = False,
                          switch4State = False, switch5State = False,
                          reasoning = ''HEALTHY: all switches may be on''\<rparr>),
      updateSwitchState = (\<lambda>i n b. i \<noteq> 3)\<rparr>"

definition criticalPolicy :: Actions where
  "criticalPolicy =
     \<lparr>runEnergyPrediction = Some \<lparr>predictedConsumption = 10, userUsagePatterns = ''evening peak''\<rparr>,
      runIntelligentSwitchControl =
        (\<lambda>input. Some \<lparr>switch1State = True, switch2State = True, switch3State = True,
                          switch4State = True, switch5State = True,
                          reasoning = ''CRITICAL: battery below 10%''\<rparr>),
      updateSwitchState = (\<lambda>i n b. True)\<rparr>"

definition thirdWriteFails :: "int \<Rightarrow> string option \<Rightarrow> bool \<Rightarrow> bool" where
  "thirdWriteFails i n b = (i \<noteq> 3)"

definition input65 :: IntelligentSwitchControlInput where
  "input65 =
     \<lparr>in_voltage = 12, in_current = 2, in_batteryLevel = 65, powerConsumption = 24,
      predictedUsage = 10, in_userPreferences = ''keep the fridge on'',
      in_userUsagePatterns = ''evening peak''\<rparr>"

definition input5 :: IntelligentSwitchControlInput where
  "input5 =
     \<lparr>in_voltage = 12, in_current = 2, in_batteryLevel = 5, powerConsumption = 24,
      predictedUsage = 10, in_userPreferences = ''keep the fridge on'',
      in_userUsagePatterns = ''evening peak''\<rparr>"

definition allOn :: IntelligentSwitchControlOutput where
  "allOn =
     \<lparr>switch1State = False, switch2State = False, switch3State = False, switch4State = False,
      switch5State = False, reasoning = ''HEALTHY: all switches may be on''\<rparr>"

definition allOff :: IntelligentSwitchControlOutput where
  "allOff =
     \<lparr>switch1State = True, switch2State = True, switch3State = True, switch4State = True,
      switch5State = True, reasoning = ''CRITICAL: battery below 10%''\<rparr>"

definition oneOn :: IntelligentSwitchControlOutput where
  "oneOn =
     \<lparr>switch1State = False, switch2State = True, switch3State = True, switch4State = True,
      switch5State = True, reasoning = ''the fridge stays on''\<rparr>"

definition batteryOnly55 :: RawEnergy where
  "batteryOnly55 =
     \<lparr>raw_voltage = None, raw_current = None, raw_batteryLevel = Some 55,
      raw_temperature = None, raw_humidity = None, raw_totalConsumption = None,
      raw_energyRemain = None\<rparr>"

definition volts12amps2at60 :: RawEnergy where
  "volts12amps2at60 =
     \<lparr>raw_voltage = Some 12, raw_current = Some 2, raw_batteryLevel = Some 60,
      raw_temperature = None, raw_humidity = None, raw_totalConsumption = None,
      raw_energyRemain = None\<rparr>"

definition voltageOnly10 :: RawEnergy where
  "voltageOnly10 =
     \<lparr>raw_voltage = Some 10, raw_current = None, raw_batteryLevel = None,
      raw_temperature = None, raw_humidity = None, raw_totalConsumption = None,
      raw_energyRemain = None\<rparr>"

definition relay1StoredFalse :: StreamData where
  "relay1StoredFalse =
     \<lparr>dataPath = ''/1/state'', dataType = ''boolean'', toBool = False, toJson = []\<rparr>"

section \<open>Facts about the helpers\<close>

lemma findIndex_SomeD:
  "findIndex P xs = Some i \<Longrightarrow> i < length xs \<and> P (xs ! i) \<and> (\<forall>j<i. \<not> P (xs ! j))"
proof (induction xs arbitrary: i)
  case Nil
  then show ?case by simp
next
  case (Cons x xs)
  show ?case
  proof (cases "P x")
    case True
    with Cons.prems show ?thesis by simp
  next
    case False
    with Cons.prems obtain j where j: "findIndex P xs = Some j" "i = Suc j"
      by auto
    from Cons.IH[OF j(1)] False j(2) show ?thesis
      by (auto simp: nth_Cons split: nat.splits)
  qed
qed

lemma findIndex_None_iff: "findIndex P xs = None \<longleftrightarrow> (\<forall>x\<in>set xs. \<not> P x)"
  by (induction xs) auto

lemma find_findIndex: "find P xs = map_option (nth xs) (findIndex P xs)"
  by (induction xs) (auto simp: option.map_comp comp_def)

lemma findIndex_map: "findIndex P (map f xs) = findIndex (\<lambda>x. P (f x)) xs"
  by (induction xs) auto

lemma findIndex_ids:
  "map id' xs = map id' ys \<Longrightarrow>
   findIndex (\<lambda>sw. id' sw = k) xs = findIndex (\<lambda>sw. id' sw = k) ys"
  using findIndex_map[of "\<lambda>x. x = k" id' xs] findIndex_map[of "\<lambda>x. x = k" id' ys]
  by simp

lemma findIndex_append:
  "findIndex P (xs @ [x]) =
     (case findIndex P xs of Some i \<Rightarrow> Some i
      | None \<Rightarrow> if P x then Some (length xs) else None)"
  by (induction xs) (auto split: option.splits)

lemma find_filter_hd: "find P xs = (case filter P xs of [] \<Rightarrow> None | x # _ \<Rightarrow> Some x)"
  by (induction xs) auto

lemma bitLength_le: "n < 2 ^ k \<Longrightarrow> bitLength n \<le> k"
proof (induction k arbitrary: n)
  case 0
  then show ?case by (simp add: bitLength.simps)
next
  case (Suc k)
  show ?case
  proof (cases "n = 0")
    case True
    then show ?thesis by (subst bitLength.simps) simp
  next
    case False
    from Suc.prems have "n div 2 < 2 ^ k" by simp
    from Suc.IH[OF this] False show ?thesis by (subst bitLength.simps) simp
  qed
qed

lemma roundToDouble_exact:
  assumes "\<bar>i\<bar> < 2 ^ 53"
  shows "roundToDouble i = i"
proof -
  from assms have n: "nat \<bar>i\<bar> < 2 ^ 53"
    by (simp add: nat_less_iff)
  then have e: "bitLength (nat \<bar>i\<bar>) - 53 = 0"
    using bitLength_le[of "nat \<bar>i\<bar>" 53] by simp
  have "(2::nat) ^ 53 \<le> 2 ^ 1024" by (rule power_increasing) simp_all
  with n have big: "\<not> (2::nat) ^ 1024 \<le> nat \<bar>i\<bar>" by linarith
  show ?thesis
    unfolding roundToDouble_def Let_def e using big by auto
qed

lemma roundToDouble_small:
  "roundToDouble 1 = 1" "roundToDouble 2 = 2" "roundToDouble 3 = 3"
  by (simp_all add: roundToDouble_exact)

lemma parseInt_digits:
  "parseInt exampleEngine (codeUnits ''1'') = Some 1"
  "parseInt exampleEngine (codeUnits ''2'') = Some 2"
  "parseInt exampleEngine (codeUnits ''3'') = Some 3"
  "parseInt exampleEngine (codeUnits ''01'') = Some 1"
  by (simp_all add: parseInt_def codeUnits_def digitValue_def isWhiteSpace_def
      exampleEngine_def roundToDouble_small)

lemma numberToString_small:
  "numberToString exampleEngine 1 = ''1''" "numberToString exampleEngine 2 = ''2''"
  "numberToString exampleEngine 3 = ''3''"
  by (simp_all add: exampleEngine_def intToString_def natToString.simps digitChar_def)

lemma toInt_digits:
  "toInt ''1'' = 1" "toInt ''2'' = 2" "toInt ''3'' = 3" "toInt ''4'' = 4" "toInt ''5'' = 5"
  by (simp_all add: toInt_def atol_def isdigit_def isspace_def)

section \<open>Facts about the relay list\<close>

lemma map_id_update:
  "i < length xs \<Longrightarrow> map id' (xs[i := (xs ! i)\<lparr>name := n, state := b\<rparr>]) = map id' xs"
  by (simp add: map_update list_update_same_conv)

lemma heldState_findIndex:
  "heldState held k = map_option (\<lambda>i. state (held ! i)) (findIndex (\<lambda>sw. id' sw = k) held)"
  by (simp add: heldState_def find_findIndex option.map_comp comp_def)

lemma ingestEntry_invalid: "entryId eng e = None \<Longrightarrow> ingestEntry eng acc e = acc"
  by (auto simp: entryId_def ingestEntry_def split: option.splits if_splits)

lemma entryId_SomeD:
  "entryId eng e = Some k \<Longrightarrow> \<exists>st. raw_state (snd e) = Some st \<and> parseInt eng (fst e) = Some k"
  by (auto simp: entryId_def split: if_splits)

lemma ingestEntry_agrees_id:
  assumes "agrees eng held e"
  shows "ingestEntry eng (held, c) e = (held, c)"
proof (cases "entryId eng e")
  case None
  then show ?thesis by (rule ingestEntry_invalid)
next
  case (Some k)
  then obtain st where st: "raw_state (snd e) = Some st" and k: "parseInt eng (fst e) = Some k"
    using entryId_SomeD by blast
  from assms Some st have "heldState held k = Some (newUiState st)"
    by (simp add: agrees_def)
  then obtain i where i: "findIndex (\<lambda>sw. id' sw = k) held = Some i"
    and s: "state (held ! i) = newUiState st"
    by (auto simp: heldState_findIndex)
  show ?thesis
    by (simp add: ingestEntry_def k st i s)
qed

lemma ingestEntry_makes_agree: "agrees eng (fst (ingestEntry eng (held, c) e)) e"
proof (cases "entryId eng e")
  case None
  then show ?thesis by (simp add: agrees_def)
next
  case eid: (Some k)
  then obtain st where st: "raw_state (snd e) = Some st" and k: "parseInt eng (fst e) = Some k"
    using entryId_SomeD by blast
  show ?thesis
  proof (cases "findIndex (\<lambda>sw. id' sw = k) held")
    case None
    then show ?thesis
      by (simp add: agrees_def eid st k ingestEntry_def heldState_findIndex findIndex_append)
  next
    case (Some i)
    then have len: "i < length held" using findIndex_SomeD by fastforce
    show ?thesis
    proof (cases "state (held ! i) = newUiState st")
      case True
      with Some show ?thesis
        by (simp add: agrees_def eid st k ingestEntry_def heldState_findIndex)
    next
      case False
      let ?h = "held[i := (held ! i)\<lparr>name := raw_name (snd e), state := newUiState st\<rparr>]"
      have "findIndex (\<lambda>sw. id' sw = k) ?h = Some i"
        using findIndex_ids[OF map_id_update[OF len]] Some by simp
      with False Some len show ?thesis
        by (simp add: agrees_def eid st k ingestEntry_def heldState_findIndex)
    qed
  qed
qed

lemma ingestEntry_other:
  assumes "entryId eng e \<noteq> Some k2"
  shows "heldState (fst (ingestEntry eng (held, c) e)) k2 = heldState held k2"
proof (cases "entryId eng e")
  case None
  then show ?thesis by (simp add: ingestEntry_invalid)
next
  case eid: (Some k)
  with assms have ne: "k \<noteq> k2" by simp
  from eid obtain st where st: "raw_state (snd e) = Some st" and k: "parseInt eng (fst e) = Some k"
    using entryId_SomeD by blast
  show ?thesis
  proof (cases "findIndex (\<lambda>sw. id' sw = k) held")
    case None
    with ne show ?thesis
      by (auto simp: st k ingestEntry_def heldState_findIndex findIndex_append nth_append
               split: option.splits dest: findIndex_SomeD)
  next
    case (Some i)
    then have i: "i < length held" "id' (held ! i) = k" using findIndex_SomeD by fastforce+
    show ?thesis
    proof (cases "state (held ! i) = newUiState st")
      case True
      with Some show ?thesis by (simp add: st k ingestEntry_def)
    next
      case False
      let ?h = "held[i := (held ! i)\<lparr>name := raw_name (snd e), state := newUiState st\<rparr>]"
      have fi: "findIndex (\<lambda>sw. id' sw = k2) ?h = findIndex (\<lambda>sw. id' sw = k2) held"
        using findIndex_ids[OF map_id_update[OF i(1)]] by simp
      have "heldState ?h k2 = heldState held k2"
      proof (cases "findIndex (\<lambda>sw. id' sw = k2) held")
        case None
        with fi show ?thesis by (simp add: heldState_findIndex)
      next
        case (Some j)
        then have "id' (held ! j) = k2" using findIndex_SomeD by fastforce
        with i(2) ne have "j \<noteq> i" by auto
        with Some fi show ?thesis by (simp add: heldState_findIndex)
      qed
      with False Some show ?thesis by (simp add: st k ingestEntry_def)
    qed
  qed
qed

lemma ingestEntry_keeps_agree:
  assumes "agrees eng held e" and "entryId eng e' \<noteq> entryId eng e \<or> entryId eng e = None"
  shows "agrees eng (fst (ingestEntry eng (held, c) e')) e"
proof (cases "entryId eng e")
  case None
  then show ?thesis by (simp add: agrees_def)
next
  case (Some k)
  with assms(2) have "entryId eng e' \<noteq> Some k" by auto
  from ingestEntry_other[OF this] assms(1) Some show ?thesis
    by (simp add: agrees_def)
qed

lemma fold_keeps_agree:
  assumes "agrees eng held e" and "\<forall>e'\<in>set es. entryId eng e' \<noteq> entryId eng e \<or> entryId eng e = None"
  shows "agrees eng (fst (fold (\<lambda>e acc. ingestEntry eng acc e) es (held, c))) e"
  using assms
proof (induction es arbitrary: held c)
  case Nil
  then show ?case by simp
next
  case (Cons a es)
  obtain h1 c1 where r: "ingestEntry eng (held, c) a = (h1, c1)" by (cases "ingestEntry eng (held, c) a")
  from Cons.prems have "agrees eng (fst (ingestEntry eng (held, c) a)) e"
    by (intro ingestEntry_keeps_agree) auto
  with r have "agrees eng h1 e" by simp
  from Cons.IH[OF this] Cons.prems(2) r show ?case by simp
qed

lemma observedIds_Cons:
  "observedIds eng (e # es) =
     (case entryId eng e of None \<Rightarrow> observedIds eng es | Some k \<Rightarrow> k # observedIds eng es)"
  by (simp add: observedIds_def split: option.splits)

lemma entryId_in_observed:
  "e \<in> set es \<Longrightarrow> entryId eng e = Some k \<Longrightarrow> k \<in> set (observedIds eng es)"
  by (induction es) (auto simp: observedIds_Cons split: option.splits)

lemma fold_makes_agree:
  assumes "distinct (observedIds eng es)"
  shows "\<forall>e\<in>set es. agrees eng (fst (fold (\<lambda>e acc. ingestEntry eng acc e) es (held, c))) e"
  using assms
proof (induction es arbitrary: held c)
  case Nil
  then show ?case by simp
next
  case (Cons a es)
  obtain h1 c1 where r: "ingestEntry eng (held, c) a = (h1, c1)" by (cases "ingestEntry eng (held, c) a")
  have a1: "agrees eng h1 a" using ingestEntry_makes_agree[where held=held and c=c and e=a and eng=eng] r by simp
  have d: "distinct (observedIds eng es)"
    using Cons.prems by (simp add: observedIds_Cons split: option.splits)
  have "\<forall>e'\<in>set es. entryId eng e' \<noteq> entryId eng a \<or> entryId eng a = None"
  proof
    fix e' assume e': "e' \<in> set es"
    show "entryId eng e' \<noteq> entryId eng a \<or> entryId eng a = None"
    proof (cases "entryId eng a")
      case None
      then show ?thesis by simp
    next
      case (Some k)
      with Cons.prems have "k \<notin> set (observedIds eng es)" by (simp add: observedIds_Cons)
      with entryId_in_observed[OF e'] Some show ?thesis by auto
    qed
  qed
  from fold_keeps_agree[OF a1 this] Cons.IH[OF d] r show ?case by simp
qed

lemma fold_agrees_id:
  "\<forall>e\<in>set es. agrees eng held e \<Longrightarrow> fold (\<lambda>e acc. ingestEntry eng acc e) es (held, c) = (held, c)"
  by (induction es) (simp_all add: ingestEntry_agrees_id)

lemma heldState_sort: "heldState (sort_key id' held) k = heldState held k"
proof -
  have "filter (\<lambda>sw. id' sw = k) (sort_key id' held) = filter (\<lambda>sw. id' sw = k) held"
    by (rule sort_key_stable)
  then show ?thesis by (simp add: heldState_def find_filter_hd)
qed

lemma agrees_sort: "agrees eng (sort_key id' held) e = agrees eng held e"
  by (simp add: agrees_def heldState_sort split: option.splits)

lemma second_pass_unchanged:
  assumes "distinct (observedIds eng entries)"
  shows "onSwitchStates eng (fst (onSwitchStates eng prev (Some entries))) (Some entries)
           = (fst (onSwitchStates eng prev (Some entries)), False)"
proof (cases "snd (fold (\<lambda>e acc. ingestEntry eng acc e) entries (prev, False))")
  case False
  then show ?thesis by (simp add: onSwitchStates_def Let_def)
next
  case True
  let ?r = "fold (\<lambda>e acc. ingestEntry eng acc e) entries (prev, False)"
  have "\<forall>e\<in>set entries. agrees eng (sort_key id' (fst ?r)) e"
    using fold_makes_agree[OF assms, where held=prev and c=False] by (simp add: agrees_sort)
  from fold_agrees_id[OF this, where c=False] True show ?thesis
    by (simp add: onSwitchStates_def Let_def)
qed

lemma ingestEntry_distinct:
  assumes "distinct (map id' held)"
  shows "distinct (map id' (fst (ingestEntry eng (held, c) e)))"
proof (cases "entryId eng e")
  case None
  with assms show ?thesis by (simp add: ingestEntry_invalid)
next
  case (Some k)
  then obtain st where st: "raw_state (snd e) = Some st" and k: "parseInt eng (fst e) = Some k"
    using entryId_SomeD by blast
  show ?thesis
  proof (cases "findIndex (\<lambda>sw. id' sw = k) held")
    case None
    then have "k \<notin> id' ` set held" by (auto simp: findIndex_None_iff)
    with assms None show ?thesis by (simp add: ingestEntry_def st k)
  next
    case (Some i)
    then have "i < length held" using findIndex_SomeD by fastforce
    from map_id_update[OF this] assms Some show ?thesis
      by (simp add: ingestEntry_def st k)
  qed
qed

lemma fold_ingest_distinct:
  "distinct (map id' held) \<Longrightarrow>
   distinct (map id' (fst (fold (\<lambda>e acc. ingestEntry eng acc e) es (held, c))))"
proof (induction es arbitrary: held c)
  case Nil
  then show ?case by simp
next
  case (Cons a es)
  obtain h1 c1 where r: "ingestEntry eng (held, c) a = (h1, c1)" by (cases "ingestEntry eng (held, c) a")
  with ingestEntry_distinct[OF Cons.prems, where c=c and e=a and eng=eng] have "distinct (map id' h1)" by simp
  from Cons.IH[OF this] r show ?case by simp
qed

lemma strict_sort_key:
  assumes "distinct (map id' xs)"
  shows "sorted_wrt (<) (map id' (sort_key id' xs))"
proof -
  have "distinct (map id' (sort_key id' xs))"
    using assms by (simp add: distinct_map)
  moreover have "sorted (map id' (sort_key id' xs))" by simp
  ultimately show ?thesis by (simp add: strict_sorted_iff)
qed

lemma updateAllSwitches_length:
  "length (fst (updateAllSwitches w sws dbs)) = length sws"
  by (simp add: updateAllSwitches_def)

lemma updateAllSwitches_nth:
  "k < length sws \<Longrightarrow>
   fst (updateAllSwitches w sws dbs) ! k = (sws ! k)\<lparr>state := not_at dbs k\<rparr>"
  by (simp add: updateAllSwitches_def)

lemma updateAllSwitches_states:
  "length sws \<le> length dbs \<Longrightarrow>
   map state (fst (updateAllSwitches w sws dbs)) = map Not (take (length sws) dbs)"
  by (rule nth_equalityI) (simp_all add: updateAllSwitches_length updateAllSwitches_nth not_at_def)

lemma countOn_updateAllSwitches:
  assumes "length sws = length dbs"
  shows "countOn (fst (updateAllSwitches w sws dbs)) = length (filter Not dbs)"
proof -
  have "countOn (fst (updateAllSwitches w sws dbs))
          = length (filter (\<lambda>b. b) (map state (fst (updateAllSwitches w sws dbs))))"
    by (simp add: countOn_def filter_map comp_def)
  also have "\<dots> = length (filter (\<lambda>b. b) (map Not dbs))"
    using updateAllSwitches_states[of sws dbs w] assms by simp
  also have "\<dots> = length (filter Not dbs)"
    by (simp add: filter_map comp_def)
  finally show ?thesis .
qed

lemma length_newSwitchDbStates: "length (newSwitchDbStates out) = 5"
  by (simp add: newSwitchDbStates_def)



lemma updateAllSwitches_calls:
  "map fst (snd (updateAllSwitches w sws dbs))
     = map (\<lambda>s. (id' s, name s, state s)) (fst (updateAllSwitches w sws dbs))"
  by (simp add: updateAllSwitches_def)

section \<open>Wire codec\<close>



section \<open>Relay state ingest\<close>

text \<open>
  C7, as the code has it. Taking in the same remote relay map twice in a row changes
  nothing the second time, provided the entries of the map address relay ids that differ
  from one another: the updater then returns the held list itself, with \<open>hasChanged\<close>
  false, so that no change is notified. The relay id of an entry is what \<open>parseInt\<close>
  makes of its key. In general an entry whose decoded state is the state the held list
  already shows for its relay leaves the list and \<open>hasChanged\<close> as they are.
\<close>

theorem relay_ingest_idempotent:
  "(distinct (observedIds eng entries)
      \<longrightarrow> onSwitchStates eng (fst (onSwitchStates eng prev (Some entries))) (Some entries)
            = (fst (onSwitchStates eng prev (Some entries)), False))
   \<and> (agrees eng held e \<longrightarrow> ingestEntry eng (held, c) e = (held, c))"
  using second_pass_unchanged[of eng entries prev] ingestEntry_agrees_id[of eng held e c]
  by blast

theorem relay_ingest_idempotent_witness:
  "distinct (observedIds exampleEngine remoteMap)
   \<and> onSwitchStates exampleEngine twoSwitches (Some remoteMap)
       = ([\<lparr>id' = 1, name = Some ''Light'', state = False\<rparr>,
           \<lparr>id' = 2, name = Some ''Switch 2'', state = False\<rparr>,
           \<lparr>id' = 3, name = Some ''Pump'', state = True\<rparr>], True)
   \<and> onSwitchStates exampleEngine (fst (onSwitchStates exampleEngine twoSwitches (Some remoteMap)))
        (Some remoteMap)
       = (fst (onSwitchStates exampleEngine twoSwitches (Some remoteMap)), False)
   \<and> agrees exampleEngine twoSwitches (codeUnits ''3'', \<lparr>raw_name = None, raw_state = Some True\<rparr>)
   \<and> ingestEntry exampleEngine (twoSwitches, True)
        (codeUnits ''3'', \<lparr>raw_name = None, raw_state = Some True\<rparr>)
       = (twoSwitches, True)"
  using relay_ingest_idempotent
          [where eng = exampleEngine and entries = remoteMap and prev = twoSwitches
             and held = twoSwitches
             and e = "(codeUnits ''3'', \<lparr>raw_name = None, raw_state = Some True\<rparr>)"
             and c = True]
  by (simp add: observedIds_def entryId_def remoteMap_def
      twoSwitches_def parseInt_digits onSwitchStates_def ingestEntry_def newUiState_def
      numberToString_small agrees_def heldState_def)

text \<open>
  The remote map has the keys \<open>1\<close> and \<open>01\<close>, which both address relay 1, with the
  stored states \<open>false\<close> and \<open>true\<close>. The held list has relay 1 OFF. The first pass
  and the second pass both set \<open>hasChanged\<close> and return a new list.
\<close>

theorem colliding_keys_counterexample:
  "observedIds exampleEngine collidingMap = [1, 1]
   \<and> onSwitchStates exampleEngine [\<lparr>id' = 1, name = Some ''Light'', state = False\<rparr>]
        (Some collidingMap)
       = ([\<lparr>id' = 1, name = Some ''Light'', state = False\<rparr>], True)
   \<and> onSwitchStates exampleEngine
        (fst (onSwitchStates exampleEngine [\<lparr>id' = 1, name = Some ''Light'', state = False\<rparr>]
                (Some collidingMap)))
        (Some collidingMap)
       = ([\<lparr>id' = 1, name = Some ''Light'', state = False\<rparr>], True)"
  by (simp add: observedIds_def entryId_def collidingMap_def parseInt_digits onSwitchStates_def
      ingestEntry_def newUiState_def)

text \<open>
  C10. If the held list is in strictly ascending order of relay id, hence has at most one
  entry for each id, it is so again after any remote relay map has been taken in. A relay
  id that the list does not know is appended, under the name \<open>Switch\<close> followed by the
  text of the id when the entry brings no name, before the list is sorted. A decision is
  applied by position: the held relay at position j takes the negation of the output at
  position j, whatever its id, and is ON when there is no output at that position.
\<close>

theorem switch_list_sorted_invariant:
  "(sorted_wrt (<) (map id' prev)
      \<longrightarrow> sorted_wrt (<) (map id' (fst (onSwitchStates eng prev data))))
   \<and> (entryId eng e = Some k \<and> findIndex (\<lambda>sw. id' sw = k) held = None
        \<and> raw_name (snd e) = None
      \<longrightarrow> fst (ingestEntry eng (held, c) e)
            = held @ [\<lparr>id' = k, name = Some (''Switch '' @ numberToString eng k),
                       state = (\<not> the (raw_state (snd e)))\<rparr>])
   \<and> (j < length sws \<and> j < length dbs
      \<longrightarrow> fst (updateAllSwitches w sws dbs) ! j = (sws ! j)\<lparr>state := \<not> dbs ! j\<rparr>)
   \<and> (j < length sws \<and> length dbs \<le> j
      \<longrightarrow> fst (updateAllSwitches w sws dbs) ! j = (sws ! j)\<lparr>state := True\<rparr>)"
proof (intro conjI impI)
  assume s: "sorted_wrt (<) (map id' prev)"
  then have d: "distinct (map id' prev)" by (simp add: strict_sorted_iff)
  show "sorted_wrt (<) (map id' (fst (onSwitchStates eng prev data)))"
  proof (cases data)
    case None
    with s show ?thesis by (simp add: onSwitchStates_def)
  next
    case (Some entries)
    with s strict_sort_key[OF fold_ingest_distinct[OF d, where es = entries and c = False
                                                     and eng = eng]]
    show ?thesis
      by (simp add: onSwitchStates_def Let_def)
  qed
next
  assume "entryId eng e = Some k \<and> findIndex (\<lambda>sw. id' sw = k) held = None
        \<and> raw_name (snd e) = None"
  then show "fst (ingestEntry eng (held, c) e)
            = held @ [\<lparr>id' = k, name = Some (''Switch '' @ numberToString eng k),
                       state = (\<not> the (raw_state (snd e)))\<rparr>]"
    by (auto simp: entryId_def ingestEntry_def newUiState_def split: if_splits)
next
  assume "j < length sws \<and> j < length dbs"
  then show "fst (updateAllSwitches w sws dbs) ! j = (sws ! j)\<lparr>state := \<not> dbs ! j\<rparr>"
    by (simp add: updateAllSwitches_nth not_at_def)
next
  assume "j < length sws \<and> length dbs \<le> j"
  then show "fst (updateAllSwitches w sws dbs) ! j = (sws ! j)\<lparr>state := True\<rparr>"
    by (simp add: updateAllSwitches_nth not_at_def)
qed

theorem switch_list_sorted_invariant_witness:
  "sorted_wrt (<) (map id' twoSwitches)
   \<and> map id' (fst (onSwitchStates exampleEngine twoSwitches (Some remoteMap))) = [1, 2, 3]
   \<and> entryId exampleEngine (codeUnits ''2'', \<lparr>raw_name = None, raw_state = Some True\<rparr>) = Some 2
   \<and> findIndex (\<lambda>sw. id' sw = 2) twoSwitches = None
   \<and> fst (ingestEntry exampleEngine (twoSwitches, False)
             (codeUnits ''2'', \<lparr>raw_name = None, raw_state = Some True\<rparr>))
       = twoSwitches @ [\<lparr>id' = 2, name = Some ''Switch 2'', state = False\<rparr>]
   \<and> fst (updateAllSwitches thirdWriteFails twoSwitches [True, False, True, True, True]) ! 1
       = \<lparr>id' = 3, name = Some ''Fan'', state = True\<rparr>
   \<and> fst (updateAllSwitches thirdWriteFails twoSwitches [False]) ! 1
       = \<lparr>id' = 3, name = Some ''Fan'', state = True\<rparr>
   \<and> fst (updateAllSwitches thirdWriteFails twoSwitches [False]) ! 0
       = \<lparr>id' = 1, name = Some ''Light'', state = True\<rparr>"
  using switch_list_sorted_invariant
          [where prev = twoSwitches and eng = exampleEngine and data = "Some remoteMap"
             and e = "(codeUnits ''2'', \<lparr>raw_name = None, raw_state = Some True\<rparr>)"
             and k = 2 and held = twoSwitches and c = False and j = 1 and sws = twoSwitches
             and w = thirdWriteFails and dbs = "[True, False, True, True, True]"]
        switch_list_sorted_invariant
          [where prev = twoSwitches and eng = exampleEngine and data = "Some remoteMap"
             and e = "(codeUnits ''2'', \<lparr>raw_name = None, raw_state = Some True\<rparr>)"
             and k = 2 and held = twoSwitches and c = False and j = 1 and sws = twoSwitches
             and w = thirdWriteFails and dbs = "[False]"]
  by (simp add: entryId_def remoteMap_def twoSwitches_def parseInt_digits onSwitchStates_def
      ingestEntry_def newUiState_def numberToString_small updateAllSwitches_def not_at_def
      upt_rec)

section \<open>Threshold guard\<close>

lemma batteryLevel_newEnergyData:
  "raw_batteryLevel ld = Some b \<Longrightarrow> batteryLevel (newEnergyData INIT ld) = b"
  by (simp add: newEnergyData_def nullish_def)

lemma batteryEffect_held: "batteryEffect before after (Some before) = Some after"
  by (simp add: batteryEffect_def)

lemma automateEvents_crossings:
  "list_all carriesLevel ds \<Longrightarrow>
   automateEvents INIT (ed, Some (batteryLevel ed)) ds = crossings (batteryLevel ed) (levels ds)"
proof (induction ds arbitrary: ed)
  case Nil
  then show ?case by (simp add: levels_def)
next
  case (Cons d ds)
  from Cons.prems obtain ld b where d: "d = Some ld" and b: "raw_batteryLevel ld = Some b"
    by (auto simp: carriesLevel_def split: option.splits)
  from Cons.prems have rest: "list_all carriesLevel ds" by simp
  let ?e = "newEnergyData INIT ld"
  have lvl: "batteryLevel ?e = b" using b by (rule batteryLevel_newEnergyData)
  have "automateEvents INIT (ed, Some (batteryLevel ed)) (d # ds)
          = crossesDown (batteryLevel ed) b # automateEvents INIT (?e, Some (batteryLevel ?e)) ds"
    by (simp add: d b onEnergyValue_def js_less_def crossesDown_def batteryEffect_held lvl
        conj_commute)
  also have "\<dots> = crossesDown (batteryLevel ed) b # crossings b (levels ds)"
    using Cons.IH[OF rest, of ?e] lvl by simp
  finally show ?case by (simp add: levels_def d b)
qed

lemma automateEvents_part001_crossings:
  "list_all carriesLevel ds \<Longrightarrow> (batteryLevel ed \<ge> 40 \<Longrightarrow> \<not> trig) \<Longrightarrow>
   automateEvents_part001 (ed, trig) ds = crossings (batteryLevel ed) (levels ds)"
proof (induction ds arbitrary: ed trig)
  case Nil
  then show ?case by (simp add: levels_def)
next
  case (Cons d ds)
  from Cons.prems(1) obtain ld b where d: "d = Some ld" and b: "raw_batteryLevel ld = Some b"
    by (auto simp: carriesLevel_def split: option.splits)
  from Cons.prems(1) have rest: "list_all carriesLevel ds" by simp
  obtain ed1 trig1 where st: "fst (onEnergyValue_part001 (ed, trig) ld) = (ed1, trig1)"
    by (cases "fst (onEnergyValue_part001 (ed, trig) ld)")
  have fire: "snd (onEnergyValue_part001 (ed, trig) ld) = crossesDown (batteryLevel ed) b"
    using Cons.prems(2)
    by (auto simp: onEnergyValue_part001_def Let_def b nullish_def crossesDown_def)
  from st have lvl: "batteryLevel ed1 = b"
    by (auto simp: onEnergyValue_part001_def Let_def b nullish_def)
  from st have inv: "batteryLevel ed1 \<ge> 40 \<Longrightarrow> \<not> trig1"
    by (auto simp: onEnergyValue_part001_def Let_def b nullish_def split: if_splits)
  have "automateEvents_part001 (ed, trig) (d # ds)
          = crossesDown (batteryLevel ed) b # automateEvents_part001 (ed1, trig1) ds"
    by (simp add: d fire st)
  also have "\<dots> = crossesDown (batteryLevel ed) b # crossings b (levels ds)"
    using Cons.IH[OF rest inv] lvl by simp
  finally show ?case by (simp add: levels_def d b)
qed

lemma levels_levelOnly: "levels (map levelOnly bs) = bs"
  by (induction bs) (simp_all add: levels_def levelOnly_def)

lemma carries_levelOnly: "list_all carriesLevel (map levelOnly bs)"
  by (induction bs) (simp_all add: carriesLevel_def levelOnly_def)

lemma crossings_example:
  "crossings p [50, 35, 20, 15, 45, 30, 10] = [False, True, False, False, False, True, False]"
  by (simp add: crossesDown_def)

lemma dashboardAutomate_levelOnly:
  "dashboardAutomate INIT (map levelOnly bs) = crossings (batteryLevel INIT) bs"
  unfolding dashboardAutomate_def refAfterMount_def
  by (simp only: automateEvents_crossings[OF carries_levelOnly] levels_levelOnly)

lemma dashboardAutomate_part001_levelOnly:
  "dashboardAutomate_part001 INIT (map levelOnly bs) = crossings (batteryLevel INIT) bs"
proof -
  have "batteryLevel INIT \<ge> 40 \<Longrightarrow> \<not> False" by simp
  from automateEvents_part001_crossings[OF carries_levelOnly this]
  show ?thesis unfolding dashboardAutomate_part001_def by (simp only: levels_levelOnly)
qed

text \<open>
  Over any list of snapshots that each carry a battery level, the automatic optimization is
  requested exactly at the snapshots whose level is below 40 while the level held before is
  at least 40. The level held before the first snapshot is the battery level of
  \<open>INITIAL_ENERGY_DATA\<close>; afterwards it is the level of the snapshot before. The listener
  of dashboard.tsx and the earlier one of part_001 agree on this. For the levels 50, 35, 20,
  15, 45, 30, 10 the request is made exactly twice, at 35 and at 30.
\<close>

lemma automate_on_downward_crossing:
  "(list_all carriesLevel ds \<longrightarrow>
      dashboardAutomate INIT ds = crossings (batteryLevel INIT) (levels ds)
      \<and> dashboardAutomate_part001 INIT ds = crossings (batteryLevel INIT) (levels ds))
   \<and> dashboardAutomate INIT (map levelOnly [50, 35, 20, 15, 45, 30, 10])
       = [False, True, False, False, False, True, False]
   \<and> dashboardAutomate_part001 INIT (map levelOnly [50, 35, 20, 15, 45, 30, 10])
       = [False, True, False, False, False, True, False]"
proof (intro conjI impI)
  assume c: "list_all carriesLevel ds"
  show "dashboardAutomate INIT ds = crossings (batteryLevel INIT) (levels ds)"
    unfolding dashboardAutomate_def refAfterMount_def by (rule automateEvents_crossings[OF c])
  show "dashboardAutomate_part001 INIT ds = crossings (batteryLevel INIT) (levels ds)"
    unfolding dashboardAutomate_part001_def
    by (rule automateEvents_part001_crossings[OF c]) simp
next
  show "dashboardAutomate INIT (map levelOnly [50, 35, 20, 15, 45, 30, 10])
       = [False, True, False, False, False, True, False]"
    by (simp only: dashboardAutomate_levelOnly crossings_example)
next
  show "dashboardAutomate_part001 INIT (map levelOnly [50, 35, 20, 15, 45, 30, 10])
       = [False, True, False, False, False, True, False]"
    by (simp only: dashboardAutomate_part001_levelOnly crossings_example)
qed


section \<open>Telemetry ingest\<close>

lemma energyData_handlePrediction: "energyData (fst (handlePrediction act d)) = energyData d"
  by (simp add: handlePrediction_def Let_def split: option.splits)

lemma energyData_handleOptimization:
  "energyData (fst (handleOptimization act d x a)) = energyData d"
  by (simp add: handleOptimization_def Let_def energyData_handlePrediction split: option.splits)

lemma energyData_step:
  "energyData (fst (dashboardStep INIT eng act d (EnergyValue (Some ld))))
     = newEnergyData INIT ld"
  by (simp add: dashboardStep_def Let_def onEnergyValue_def energyData_handleOptimization)

text \<open>
  C5, as the code has it. In dashboard.tsx the data held after a snapshot is built from the
  snapshot and \<open>INITIAL_ENERGY_DATA\<close> alone, whatever was held before: each of voltage,
  current, battery level, temperature, humidity, total consumption and remaining energy is
  the value of the snapshot when it is present and the initial value when it is missing, and
  the power is voltage times current when the snapshot itself brings both and neither is
  zero, else the initial power. In the earlier listener of part_001 a missing voltage,
  current, battery level, temperature or humidity keeps the value held before, total
  consumption and remaining energy always keep the value held before, and the power is
  voltage times current when the snapshot itself brings both and neither is zero, else the
  power held before. There the snapshot with only the battery level 55, after the snapshot
  with voltage 12, current 2 and battery level 60, gives voltage 12, current 2, battery
  level 55 and power 24, the power being the one held before.
\<close>

theorem telemetry_ingest_fields:
  "energyData (fst (dashboardStep INIT eng act d (EnergyValue (Some ld)))) = newEnergyData INIT ld
   \<and> voltage (newEnergyData INIT ld) = (case raw_voltage ld of None \<Rightarrow> voltage INIT | Some v \<Rightarrow> v)
   \<and> current (newEnergyData INIT ld) = (case raw_current ld of None \<Rightarrow> current INIT | Some c \<Rightarrow> c)
   \<and> batteryLevel (newEnergyData INIT ld)
       = (case raw_batteryLevel ld of None \<Rightarrow> batteryLevel INIT | Some b \<Rightarrow> b)
   \<and> power' (newEnergyData INIT ld)
       = (case (raw_voltage ld, raw_current ld) of
            (Some v, Some c) \<Rightarrow> if v \<noteq> 0 \<and> c \<noteq> 0 then v * c else power' INIT
          | _ \<Rightarrow> power' INIT)
   \<and> temperature (newEnergyData INIT ld)
       = (case raw_temperature ld of None \<Rightarrow> temperature INIT | Some x \<Rightarrow> x)
   \<and> humidity (newEnergyData INIT ld)
       = (case raw_humidity ld of None \<Rightarrow> humidity INIT | Some x \<Rightarrow> x)
   \<and> totalConsumption (newEnergyData INIT ld)
       = (case raw_totalConsumption ld of None \<Rightarrow> totalConsumption INIT | Some x \<Rightarrow> x)
   \<and> energyRemain (newEnergyData INIT ld)
       = (case raw_energyRemain ld of None \<Rightarrow> energyRemain INIT | Some x \<Rightarrow> x)
   \<and> voltage (fst (fst (onEnergyValue_part001 (prev, t) ld)))
       = (case raw_voltage ld of None \<Rightarrow> voltage prev | Some v \<Rightarrow> v)
   \<and> current (fst (fst (onEnergyValue_part001 (prev, t) ld)))
       = (case raw_current ld of None \<Rightarrow> current prev | Some c \<Rightarrow> c)
   \<and> batteryLevel (fst (fst (onEnergyValue_part001 (prev, t) ld)))
       = (case raw_batteryLevel ld of None \<Rightarrow> batteryLevel prev | Some b \<Rightarrow> b)
   \<and> power' (fst (fst (onEnergyValue_part001 (prev, t) ld)))
       = (case (raw_voltage ld, raw_current ld) of
            (Some v, Some c) \<Rightarrow> if v \<noteq> 0 \<and> c \<noteq> 0 then v * c else power' prev
          | _ \<Rightarrow> power' prev)
   \<and> temperature (fst (fst (onEnergyValue_part001 (prev, t) ld)))
       = (case raw_temperature ld of None \<Rightarrow> temperature prev | Some x \<Rightarrow> x)
   \<and> humidity (fst (fst (onEnergyValue_part001 (prev, t) ld)))
       = (case raw_humidity ld of None \<Rightarrow> humidity prev | Some x \<Rightarrow> x)
   \<and> totalConsumption (fst (fst (onEnergyValue_part001 (prev, t) ld))) = totalConsumption prev
   \<and> energyRemain (fst (fst (onEnergyValue_part001 (prev, t) ld))) = energyRemain prev
   \<and> fst (fst (onEnergyValue_part001
                  (fst (onEnergyValue_part001 (prev, t) volts12amps2at60)) batteryOnly55))
       = prev\<lparr>voltage := 12, current := 2, batteryLevel := 55, power' := 24\<rparr>"
proof (intro conjI)
  show "energyData (fst (dashboardStep INIT eng act d (EnergyValue (Some ld))))
          = newEnergyData INIT ld"
    by (rule energyData_step)
qed (simp_all add: newEnergyData_def onEnergyValue_part001_def Let_def nullish_def truthy_def
      volts12amps2at60_def batteryOnly55_def split: option.splits)

theorem telemetry_ingest_fields_witness:
  "energyData (fst (dashboardStep zeroEnergy exampleEngine noForecast
                      (fst (mountDashboard zeroEnergy fiveSwitchesOff noForecast))
                      (EnergyValue (Some volts12amps2at60))))
     = \<lparr>voltage = 12, current = 2, batteryLevel = 60, power' = 24, temperature = 0,
        humidity = 0, totalConsumption = 0, energyRemain = 0\<rparr>
   \<and> newEnergyData chargedEnergy batteryOnly55
     = \<lparr>voltage = 12, current = 2, batteryLevel = 55, power' = 24, temperature = 25,
        humidity = 60, totalConsumption = 0, energyRemain = 0\<rparr>
   \<and> fst (fst (onEnergyValue_part001
                  (fst (onEnergyValue_part001 (zeroEnergy, False) volts12amps2at60))
                  batteryOnly55))
     = \<lparr>voltage = 12, current = 2, batteryLevel = 55, power' = 24, temperature = 0,
        humidity = 0, totalConsumption = 0, energyRemain = 0\<rparr>"
  using telemetry_ingest_fields
          [where INIT = zeroEnergy and eng = exampleEngine and act = noForecast
             and d = "fst (mountDashboard zeroEnergy fiveSwitchesOff noForecast)"
             and ld = volts12amps2at60 and prev = zeroEnergy and t = False]
  by (simp add: newEnergyData_def nullish_def truthy_def volts12amps2at60_def zeroEnergy_def
      chargedEnergy_def batteryOnly55_def)

text \<open>
  In dashboard.tsx, started from initial data that are all zero, the snapshot with only the
  battery level 55 after the snapshot with voltage 12, current 2 and battery level 60 leaves
  voltage 0, current 0 and power 0. In part_001 the snapshot with only the voltage 10, on
  held data with voltage 12, current 2 and power 24, leaves the power 24 beside voltage 10
  and current 2.
\<close>

theorem telemetry_merge_counterexample:
  "energyData (fst (dashboardRun zeroEnergy exampleEngine
                      (fst (mountDashboard zeroEnergy fiveSwitchesOff noForecast))
                      [(noForecast, EnergyValue (Some volts12amps2at60)),
                       (noForecast, EnergyValue (Some batteryOnly55))]))
     = \<lparr>voltage = 0, current = 0, batteryLevel = 55, power' = 0, temperature = 0,
        humidity = 0, totalConsumption = 0, energyRemain = 0\<rparr>
   \<and> fst (fst (onEnergyValue_part001
                  (\<lparr>voltage = 12, current = 2, batteryLevel = 60, power' = 24, temperature = 0,
                    humidity = 0, totalConsumption = 0, energyRemain = 0\<rparr>, False)
                  voltageOnly10))
     = \<lparr>voltage = 10, current = 2, batteryLevel = 60, power' = 24, temperature = 0,
        humidity = 0, totalConsumption = 0, energyRemain = 0\<rparr>"
  by (simp add: mountDashboard_def handlePrediction_def dashboardStep_def onEnergyValue_def
      js_less_def newEnergyData_def onEnergyValue_part001_def Let_def nullish_def truthy_def
      zeroEnergy_def noForecast_def volts12amps2at60_def batteryOnly55_def voltageOnly10_def
      batteryEffect_def refAfterMount_def)

section \<open>Allocation policy\<close>

text \<open>
  C3, as the code has it. The decision that \<open>intelligentSwitchControl\<close> returns is the
  output of the model, unchanged: the program holds no band and no count. Applied to five
  held relays, the decision leaves as many relays ON as the model gave outputs \<open>false\<close>.
\<close>

theorem decision_count_is_model_output:
  "intelligentSwitchControl prompt input = prompt input
   \<and> (length sws = 5 \<longrightarrow>
        countOn (fst (updateAllSwitches w sws (newSwitchDbStates out)))
          = length (filter Not (newSwitchDbStates out)))"
  using countOn_updateAllSwitches[of sws "newSwitchDbStates out" w]
  by (simp add: intelligentSwitchControl_def intelligentSwitchControlFlow_def
      length_newSwitchDbStates)

theorem decision_count_is_model_output_witness:
  "intelligentSwitchControl (\<lambda>i. Some oneOn) input65 = Some oneOn
   \<and> length fiveSwitchesOff = 5
   \<and> countOn (fst (updateAllSwitches thirdWriteFails fiveSwitchesOff (newSwitchDbStates oneOn)))
       = 1"
  using decision_count_is_model_output
          [of "\<lambda>i. Some oneOn" input65 fiveSwitchesOff thirdWriteFails oneOn]
  by (simp add: fiveSwitchesOff_def newSwitchDbStates_def oneOn_def)

text \<open>
  With a battery level of 65 and a model that answers \<open>false\<close> five times, as rule 4 of the
  prompt in intelligent-switch-control.ts allows, the decision has five relays ON.
\<close>

theorem band_cardinality_counterexample:
  "in_batteryLevel input65 = 65
   \<and> map_option (\<lambda>out. length (filter Not (newSwitchDbStates out)))
       (intelligentSwitchControl (\<lambda>i. Some allOn) input65) = Some 5"
  by (simp add: intelligentSwitchControl_def intelligentSwitchControlFlow_def
      newSwitchDbStates_def allOn_def input65_def)

lemma handleOptimization_applies:
  "prediction d = Some p \<Longrightarrow>
   runIntelligentSwitchControl act (optimizationInput x (userPreferences d) p) = Some out \<Longrightarrow>
   fst (handleOptimization act d x a)
     = d\<lparr>switches := fst (updateAllSwitches (updateSwitchState act) (switches d)
                            (newSwitchDbStates out)),
          aiReasoning := reasoning out, isOptimizing := False\<rparr>"
  by (simp add: handleOptimization_def Let_def)

lemma all_true_turns_off:
  assumes "switch1State out \<and> switch2State out \<and> switch3State out \<and> switch4State out
        \<and> switch5State out \<and> length sws \<le> 5"
  shows "\<forall>s\<in>set (fst (updateAllSwitches w sws (newSwitchDbStates out))). \<not> state s"
proof
  from assms have all: "newSwitchDbStates out = replicate 5 True"
    by (simp add: newSwitchDbStates_def numeral_eq_Suc)
  from assms have "map state (fst (updateAllSwitches w sws (newSwitchDbStates out)))
                 = map Not (take (length sws) (replicate 5 True))"
    using updateAllSwitches_states[of sws "newSwitchDbStates out" w]
    by (simp add: all)
  then have m: "map state (fst (updateAllSwitches w sws (newSwitchDbStates out)))
                 = replicate (length sws) False"
    using assms by (simp add: min_def)
  fix s assume "s \<in> set (fst (updateAllSwitches w sws (newSwitchDbStates out)))"
  then have "state s
               \<in> set (map state (fst (updateAllSwitches w sws (newSwitchDbStates out))))"
    by simp
  with m show "\<not> state s" by (simp del: set_map)
qed

text \<open>
  C4, as the code has it. The decision that \<open>intelligentSwitchControl\<close> returns is the
  output of the model, unchanged, at every battery level. When the model follows rule 1 of
  the prompt and answers \<open>true\<close> five times, applying the decision leaves every one of up
  to five held relays OFF. The rationale that the dashboard then holds is the reasoning
  text of the model, and the relays it holds are those of the decision applied by position.
\<close>

theorem critical_rule_when_obeyed:
  "intelligentSwitchControl prompt input = prompt input
   \<and> (switch1State out \<and> switch2State out \<and> switch3State out \<and> switch4State out
        \<and> switch5State out \<and> length sws \<le> 5
      \<longrightarrow> countOn (fst (updateAllSwitches w sws (newSwitchDbStates out))) = 0
        \<and> list_all (\<lambda>s. \<not> state s) (fst (updateAllSwitches w sws (newSwitchDbStates out))))
   \<and> (prediction d = Some p
        \<and> runIntelligentSwitchControl act (optimizationInput x (userPreferences d) p) = Some out
      \<longrightarrow> switches (fst (handleOptimization act d x a))
            = fst (updateAllSwitches (updateSwitchState act) (switches d) (newSwitchDbStates out))
        \<and> aiReasoning (fst (handleOptimization act d x a)) = reasoning out)"
proof (intro conjI impI)
  show "intelligentSwitchControl prompt input = prompt input"
    by (simp add: intelligentSwitchControl_def intelligentSwitchControlFlow_def)
next
  assume a: "switch1State out \<and> switch2State out \<and> switch3State out \<and> switch4State out
        \<and> switch5State out \<and> length sws \<le> 5"
  from all_true_turns_off[OF a]
  show "countOn (fst (updateAllSwitches w sws (newSwitchDbStates out))) = 0"
    by (simp add: countOn_def)
  from all_true_turns_off[OF a]
  show "list_all (\<lambda>s. \<not> state s) (fst (updateAllSwitches w sws (newSwitchDbStates out)))"
    by (simp add: list_all_iff)
next
  assume b: "prediction d = Some p
        \<and> runIntelligentSwitchControl act (optimizationInput x (userPreferences d) p) = Some out"
  then show "switches (fst (handleOptimization act d x a))
            = fst (updateAllSwitches (updateSwitchState act) (switches d) (newSwitchDbStates out))"
    by (simp add: handleOptimization_applies)
  from b show "aiReasoning (fst (handleOptimization act d x a)) = reasoning out"
    by (simp add: handleOptimization_applies)
qed

theorem critical_rule_when_obeyed_witness:
  "intelligentSwitchControl (\<lambda>i. Some allOff) input5 = Some allOff
   \<and> switch1State allOff \<and> switch2State allOff \<and> switch3State allOff \<and> switch4State allOff
   \<and> switch5State allOff \<and> length mixedSwitches \<le> 5
   \<and> countOn mixedSwitches = 3
   \<and> countOn (fst (updateAllSwitches thirdWriteFails mixedSwitches (newSwitchDbStates allOff)))
       = 0
   \<and> list_all (\<lambda>s. \<not> state s)
        (fst (updateAllSwitches thirdWriteFails mixedSwitches (newSwitchDbStates allOff)))
   \<and> prediction (fst (mountDashboard zeroEnergy mixedSwitches criticalPolicy))
       = Some \<lparr>predictedConsumption = 10, userUsagePatterns = ''evening peak''\<rparr>
   \<and> runIntelligentSwitchControl criticalPolicy
        (optimizationInput zeroEnergy
           (userPreferences (fst (mountDashboard zeroEnergy mixedSwitches criticalPolicy)))
           \<lparr>predictedConsumption = 10, userUsagePatterns = ''evening peak''\<rparr>)
       = Some allOff
   \<and> map state (switches (fst (mountDashboard zeroEnergy mixedSwitches criticalPolicy)))
       = [True, False, True, True, False]
   \<and> switches (fst (handleOptimization criticalPolicy
                       (fst (mountDashboard zeroEnergy mixedSwitches criticalPolicy))
                       zeroEnergy True))
       = [\<lparr>id' = 1, name = Some ''Light'', state = False\<rparr>,
          \<lparr>id' = 2, name = Some ''Fridge'', state = False\<rparr>,
          \<lparr>id' = 3, name = Some ''Fan'', state = False\<rparr>,
          \<lparr>id' = 4, name = Some ''Pump'', state = False\<rparr>,
          \<lparr>id' = 5, name = Some ''Heater'', state = False\<rparr>]
   \<and> aiReasoning (fst (handleOptimization criticalPolicy
                         (fst (mountDashboard zeroEnergy mixedSwitches criticalPolicy))
                         zeroEnergy True))
       = ''CRITICAL: battery below 10%''"
  using critical_rule_when_obeyed
          [where prompt = "\<lambda>i. Some allOff" and input = input5 and out = allOff
             and sws = mixedSwitches and w = thirdWriteFails
             and d = "fst (mountDashboard zeroEnergy mixedSwitches criticalPolicy)"
             and p = "\<lparr>predictedConsumption = 10, userUsagePatterns = ''evening peak''\<rparr>"
             and act = criticalPolicy and x = zeroEnergy and a = True]
  by (simp add: allOff_def mixedSwitches_def mountDashboard_def handlePrediction_def
      criticalPolicy_def updateAllSwitches_def newSwitchDbStates_def not_at_def upt_rec
      countOn_def)

text \<open>
  With a battery level of 5 and a model that keeps the first switch ON, the decision
  returned has the first relay ON.
\<close>

theorem critical_override_counterexample:
  "in_batteryLevel input5 = 5
   \<and> map_option newSwitchDbStates (intelligentSwitchControl (\<lambda>i. Some oneOn) input5)
       = Some [False, True, True, True, True]
   \<and> map state (fst (updateAllSwitches thirdWriteFails fiveSwitchesOff (newSwitchDbStates oneOn)))
       = [True, False, False, False, False]"
  by (simp add: intelligentSwitchControl_def intelligentSwitchControlFlow_def
      newSwitchDbStates_def oneOn_def input5_def updateAllSwitches_def fiveSwitchesOff_def
      not_at_def upt_rec)

section \<open>Writing relay states\<close>

lemma handleOptimization_effects:
  "prediction d = Some p \<Longrightarrow>
   runIntelligentSwitchControl act (optimizationInput x (userPreferences d) p) = Some out \<Longrightarrow>
   snd (handleOptimization act d x a)
     = [PolicyCall (optimizationInput x (userPreferences d) p)]
       @ map (\<lambda>s. RemoteWrite (id' s) (name s) (state s))
           (fst (updateAllSwitches (updateSwitchState act) (switches d) (newSwitchDbStates out)))
       @ [Toast (if a then ''Low Battery Action'' else ''Optimization Complete'')]"
  by (simp add: handleOptimization_def Let_def updateAllSwitches_def comp_def)

text \<open>
  C6, as the code has it. When a decision is applied, every held relay takes the negation
  of the output at its position, one write is issued for every relay with that new state,
  and the outcomes of the writes are not read: the list held afterwards is the same whatever
  the writes answer, and the only notice shown is the one of success. The write of a manual
  toggle is tracked: when it fails, the relay of the toggle, and no other, is set to the
  negation of the requested state and the error \<open>Update Failed\<close> is shown; when it
  succeeds the relay keeps the requested state and no error is shown.
\<close>

theorem decision_writes_not_tracked:
  "(j < length sws \<and> j < length dbs
      \<longrightarrow> fst (updateAllSwitches w sws dbs) ! j = (sws ! j)\<lparr>state := \<not> dbs ! j\<rparr>)
   \<and> length (fst (updateAllSwitches w sws dbs)) = length sws
   \<and> map fst (snd (updateAllSwitches w sws dbs))
       = map (\<lambda>s. (id' s, name s, state s)) (fst (updateAllSwitches w sws dbs))
   \<and> fst (updateAllSwitches w sws dbs) = fst (updateAllSwitches w' sws dbs)
   \<and> (prediction d = Some p
        \<and> runIntelligentSwitchControl act (optimizationInput x (userPreferences d) p) = Some out
      \<longrightarrow> switches (fst (handleOptimization act d x a))
            = fst (updateAllSwitches w' (switches d) (newSwitchDbStates out))
        \<and> snd (handleOptimization act d x a)
            = [PolicyCall (optimizationInput x (userPreferences d) p)]
              @ map (\<lambda>s. RemoteWrite (id' s) (name s) (state s))
                  (fst (updateAllSwitches w' (switches d) (newSwitchDbStates out)))
              @ [Toast (if a then ''Low Battery Action'' else ''Optimization Complete'')])
   \<and> (find (\<lambda>s. id' s = i) sws = Some t \<and> \<not> w i (name t) checked
      \<longrightarrow> handleSwitchChange w sws i checked
            = (map (\<lambda>s. if id' s = i then s\<lparr>state := \<not> checked\<rparr> else s) sws,
               [(i, name t, checked)], Some ''Update Failed''))
   \<and> (find (\<lambda>s. id' s = i) sws = Some t \<and> w i (name t) checked
      \<longrightarrow> handleSwitchChange w sws i checked
            = (map (\<lambda>s. if id' s = i then s\<lparr>state := checked\<rparr> else s) sws,
               [(i, name t, checked)], None))"
proof (intro conjI impI)
  assume "j < length sws \<and> j < length dbs"
  then show "fst (updateAllSwitches w sws dbs) ! j = (sws ! j)\<lparr>state := \<not> dbs ! j\<rparr>"
    by (simp add: updateAllSwitches_nth not_at_def)
next
  show "length (fst (updateAllSwitches w sws dbs)) = length sws"
    by (rule updateAllSwitches_length)
next
  show "map fst (snd (updateAllSwitches w sws dbs))
       = map (\<lambda>s. (id' s, name s, state s)) (fst (updateAllSwitches w sws dbs))"
    by (rule updateAllSwitches_calls)
next
  show ind: "fst (updateAllSwitches w sws dbs) = fst (updateAllSwitches w' sws dbs)"
    by (simp add: updateAllSwitches_def)
next
  assume b: "prediction d = Some p
        \<and> runIntelligentSwitchControl act (optimizationInput x (userPreferences d) p) = Some out"
  have same: "fst (updateAllSwitches (updateSwitchState act) (switches d) (newSwitchDbStates out))
                = fst (updateAllSwitches w' (switches d) (newSwitchDbStates out))"
    by (simp add: updateAllSwitches_def)
  from b show "switches (fst (handleOptimization act d x a))
            = fst (updateAllSwitches w' (switches d) (newSwitchDbStates out))"
    by (simp add: handleOptimization_applies same)
  from b show "snd (handleOptimization act d x a)
            = [PolicyCall (optimizationInput x (userPreferences d) p)]
              @ map (\<lambda>s. RemoteWrite (id' s) (name s) (state s))
                  (fst (updateAllSwitches w' (switches d) (newSwitchDbStates out)))
              @ [Toast (if a then ''Low Battery Action'' else ''Optimization Complete'')]"
    by (simp only: handleOptimization_effects same)
next
  assume "find (\<lambda>s. id' s = i) sws = Some t \<and> \<not> w i (name t) checked"
  then show "handleSwitchChange w sws i checked
            = (map (\<lambda>s. if id' s = i then s\<lparr>state := \<not> checked\<rparr> else s) sws,
               [(i, name t, checked)], Some ''Update Failed'')"
    by (auto simp: handleSwitchChange_def Let_def)
next
  assume "find (\<lambda>s. id' s = i) sws = Some t \<and> w i (name t) checked"
  then show "handleSwitchChange w sws i checked
            = (map (\<lambda>s. if id' s = i then s\<lparr>state := checked\<rparr> else s) sws,
               [(i, name t, checked)], None)"
    by (auto simp: handleSwitchChange_def Let_def)
qed

theorem decision_writes_not_tracked_witness:
  "fst (updateAllSwitches thirdWriteFails fiveSwitchesOff [False, True, False, True, True]) ! 2
     = \<lparr>id' = 3, name = Some ''Switch 3'', state = True\<rparr>
   \<and> map fst (snd (updateAllSwitches thirdWriteFails fiveSwitchesOff
                     [False, True, False, True, True]))
     = [(1, Some ''Switch 1'', True), (2, Some ''Switch 2'', False),
        (3, Some ''Switch 3'', True), (4, Some ''Switch 4'', False),
        (5, Some ''Switch 5'', False)]
   \<and> prediction (fst (mountDashboard zeroEnergy fiveSwitchesOff allOnPolicy))
       = Some \<lparr>predictedConsumption = 10, userUsagePatterns = ''evening peak''\<rparr>
   \<and> runIntelligentSwitchControl allOnPolicy
        (optimizationInput zeroEnergy
           (userPreferences (fst (mountDashboard zeroEnergy fiveSwitchesOff allOnPolicy)))
           \<lparr>predictedConsumption = 10, userUsagePatterns = ''evening peak''\<rparr>)
       = Some allOn
   \<and> map state (switches (fst (handleOptimization allOnPolicy
                       (fst (mountDashboard zeroEnergy fiveSwitchesOff allOnPolicy))
                       zeroEnergy False)))
       = [True, True, True, True, True]
   \<and> find (\<lambda>s. id' s = 3) twoSwitches = Some \<lparr>id' = 3, name = Some ''Fan'', state = False\<rparr>
   \<and> \<not> thirdWriteFails 3 (Some ''Fan'') True
   \<and> handleSwitchChange thirdWriteFails twoSwitches 3 True
       = (twoSwitches, [(3, Some ''Fan'', True)], Some ''Update Failed'')
   \<and> find (\<lambda>s. id' s = 1) twoSwitches = Some \<lparr>id' = 1, name = Some ''Light'', state = False\<rparr>
   \<and> thirdWriteFails 1 (Some ''Light'') True
   \<and> handleSwitchChange thirdWriteFails twoSwitches 1 True
       = ([\<lparr>id' = 1, name = Some ''Light'', state = True\<rparr>,
           \<lparr>id' = 3, name = Some ''Fan'', state = False\<rparr>],
          [(1, Some ''Light'', True)], None)"
  using decision_writes_not_tracked
          [where j = 2 and sws = fiveSwitchesOff and dbs = "[False, True, False, True, True]"
             and w = thirdWriteFails and w' = thirdWriteFails
             and d = "fst (mountDashboard zeroEnergy fiveSwitchesOff allOnPolicy)"
             and p = "\<lparr>predictedConsumption = 10, userUsagePatterns = ''evening peak''\<rparr>"
             and act = allOnPolicy and x = zeroEnergy and a = False and out = allOn
             and i = 3 and t = "\<lparr>id' = 3, name = Some ''Switch 3'', state = False\<rparr>"
             and checked = True]
        decision_writes_not_tracked
          [where j = 0 and sws = twoSwitches and dbs = "[True, True]"
             and w = thirdWriteFails and w' = thirdWriteFails
             and d = "fst (mountDashboard zeroEnergy fiveSwitchesOff allOnPolicy)"
             and p = "\<lparr>predictedConsumption = 10, userUsagePatterns = ''evening peak''\<rparr>"
             and act = allOnPolicy and x = zeroEnergy and a = False and out = allOn
             and i = 3 and t = "\<lparr>id' = 3, name = Some ''Fan'', state = False\<rparr>"
             and checked = True]
        decision_writes_not_tracked
          [where j = 0 and sws = twoSwitches and dbs = "[True, True]"
             and w = thirdWriteFails and w' = thirdWriteFails
             and d = "fst (mountDashboard zeroEnergy fiveSwitchesOff allOnPolicy)"
             and p = "\<lparr>predictedConsumption = 10, userUsagePatterns = ''evening peak''\<rparr>"
             and act = allOnPolicy and x = zeroEnergy and a = False and out = allOn
             and i = 1 and t = "\<lparr>id' = 1, name = Some ''Light'', state = False\<rparr>"
             and checked = True]
  by (simp add: twoSwitches_def thirdWriteFails_def fiveSwitchesOff_def allOnPolicy_def allOn_def
      mountDashboard_def handlePrediction_def updateAllSwitches_def newSwitchDbStates_def
      not_at_def upt_rec optimizationInput_def)

text \<open>
  Five relays are held OFF, a prediction is held, the policy answers \<open>false\<close> five times
  and the remote write for relay 3 fails. After the optimization relay 3 is held ON like the
  other four, its state before the decision was OFF, and the effects are the policy call,
  the five writes and the notice of success.
\<close>

theorem rollback_counterexample:
  "updateSwitchState allOnPolicy 3 (Some ''Switch 3'') True = False
   \<and> switches (fst (mountDashboard zeroEnergy fiveSwitchesOff allOnPolicy)) = fiveSwitchesOff
   \<and> switches (fst (handleOptimization allOnPolicy
                       (fst (mountDashboard zeroEnergy fiveSwitchesOff allOnPolicy))
                       zeroEnergy False))
       = [\<lparr>id' = 1, name = Some ''Switch 1'', state = True\<rparr>,
          \<lparr>id' = 2, name = Some ''Switch 2'', state = True\<rparr>,
          \<lparr>id' = 3, name = Some ''Switch 3'', state = True\<rparr>,
          \<lparr>id' = 4, name = Some ''Switch 4'', state = True\<rparr>,
          \<lparr>id' = 5, name = Some ''Switch 5'', state = True\<rparr>]
   \<and> tl (snd (handleOptimization allOnPolicy
                 (fst (mountDashboard zeroEnergy fiveSwitchesOff allOnPolicy))
                 zeroEnergy False))
       = [RemoteWrite 1 (Some ''Switch 1'') True, RemoteWrite 2 (Some ''Switch 2'') True,
          RemoteWrite 3 (Some ''Switch 3'') True, RemoteWrite 4 (Some ''Switch 4'') True,
          RemoteWrite 5 (Some ''Switch 5'') True, Toast ''Optimization Complete'']
   \<and> map snd (snd (updateAllSwitches (updateSwitchState allOnPolicy) fiveSwitchesOff
                      [False, False, False, False, False]))
       = [True, True, False, True, True]"
  by (simp add: allOnPolicy_def mountDashboard_def handlePrediction_def handleOptimization_def
      Let_def updateAllSwitches_def newSwitchDbStates_def not_at_def upt_rec fiveSwitchesOff_def)

section \<open>Optimization without a forecast\<close>

lemma handleOptimization_no_forecast:
  "prediction d = None \<Longrightarrow> runEnergyPrediction act = None \<Longrightarrow>
   handleOptimization act d x a
     = (d\<lparr>isPredictionLoading := False, isOptimizing := False, aiReasoning := []\<rparr>,
        [PredictionFetch, Toast ''Prediction Failed'', Toast ''Cannot Optimize''])"
  by (simp add: handleOptimization_def handlePrediction_def Let_def)

text \<open>
  C8, as the code has it. When an optimization is requested while no prediction is held, the
  prediction is fetched first; when the fetch fails the policy is not called, no relay write
  is issued, the held relays stay as they are, and the error \<open>Cannot Optimize\<close> is shown.
  The request is given up: a prediction that arrives afterwards calls no policy.
\<close>

theorem no_forecast_abandons_optimization:
  "prediction d = None \<and> runEnergyPrediction act = None
   \<longrightarrow> snd (handleOptimization act d x a)
         = [PredictionFetch, Toast ''Prediction Failed'', Toast ''Cannot Optimize'']
     \<and> switches (fst (handleOptimization act d x a)) = switches d
     \<and> prediction (fst (handleOptimization act d x a)) = None
     \<and> (runEnergyPrediction act2 = Some p
        \<longrightarrow> snd (dashboardRun INIT eng d
                   [(act, OptimizeRequested), (act2, PredictRequested)])
             = [PredictionFetch, Toast ''Prediction Failed'', Toast ''Cannot Optimize'',
                PredictionFetch, Toast ''Prediction Ready''])"
  by (simp add: handleOptimization_no_forecast dashboardStep_def handlePrediction_def Let_def
      batteryEffect_def)

theorem no_forecast_abandons_optimization_witness:
  "prediction (fst (mountDashboard zeroEnergy fiveSwitchesOff noForecast)) = None
   \<and> runEnergyPrediction noForecast = None
   \<and> snd (handleOptimization noForecast
             (fst (mountDashboard zeroEnergy fiveSwitchesOff noForecast)) zeroEnergy True)
       = [PredictionFetch, Toast ''Prediction Failed'', Toast ''Cannot Optimize'']
   \<and> switches (fst (handleOptimization noForecast
             (fst (mountDashboard zeroEnergy fiveSwitchesOff noForecast)) zeroEnergy True))
       = fiveSwitchesOff
   \<and> runEnergyPrediction withForecast
       = Some \<lparr>predictedConsumption = 10, userUsagePatterns = ''evening peak''\<rparr>
   \<and> snd (dashboardRun zeroEnergy exampleEngine
             (fst (mountDashboard zeroEnergy fiveSwitchesOff noForecast))
             [(noForecast, OptimizeRequested), (withForecast, PredictRequested)])
       = [PredictionFetch, Toast ''Prediction Failed'', Toast ''Cannot Optimize'',
          PredictionFetch, Toast ''Prediction Ready'']"
  using no_forecast_abandons_optimization
          [of "fst (mountDashboard zeroEnergy fiveSwitchesOff noForecast)" noForecast
              zeroEnergy True withForecast
              "\<lparr>predictedConsumption = 10, userUsagePatterns = ''evening peak''\<rparr>" zeroEnergy
              exampleEngine]
  by (simp add: mountDashboard_def handlePrediction_def noForecast_def withForecast_def)

text \<open>
  The battery falls from 50 to 35 while no prediction can be fetched; then a prediction
  arrives; then the battery falls further to 30. The policy is never called.
\<close>

theorem deferral_counterexample:
  "snd (dashboardRun zeroEnergy exampleEngine
          (fst (mountDashboard zeroEnergy fiveSwitchesOff noForecast))
          [(noForecast, EnergyValue (levelOnly 50)),
           (noForecast, EnergyValue (levelOnly 35)),
           (withForecast, PredictRequested),
           (withForecast, EnergyValue (levelOnly 30))])
   = [PredictionFetch, Toast ''Prediction Failed'', Toast ''Cannot Optimize'',
      PredictionFetch, Toast ''Prediction Ready'']"
  by (simp add: mountDashboard_def handlePrediction_def dashboardStep_def onEnergyValue_def
      handleOptimization_def levelOnly_def js_less_def newEnergyData_def Let_def nullish_def
      truthy_def zeroEnergy_def noForecast_def withForecast_def batteryEffect_def
      refAfterMount_def)

section \<open>Device control surface\<close>

lemma statePath_digits:
  "statePath 1 = ''/1/state''" "statePath 2 = ''/2/state''" "statePath 3 = ''/3/state''"
  "statePath 4 = ''/4/state''" "statePath 5 = ''/5/state''"
  by (simp_all add: statePath_def intToString_def natToString.simps digitChar_def)

text \<open>
  For each of the relays 1 to 5 the firmware drives the pin LOW when the stored state is
  \<open>true\<close> and HIGH when it is \<open>false\<close>; the example sketch does the opposite.
\<close>

lemma firmware_levels:
  "k \<in> {1, 2, 3, 4, 5} \<Longrightarrow>
   streamCallback \<lparr>dataPath = statePath k, dataType = ''boolean'', toBool = b, toJson = js\<rparr>
     = [(getPinForSwitch k, if b then LOW else HIGH)]
   \<and> streamCallback_example
       \<lparr>dataPath = statePath k, dataType = ''boolean'', toBool = b, toJson = js\<rparr>
     = [(getPinForSwitch_example k, if b then HIGH else LOW)]"
  by (auto simp: statePath_digits streamCallback_def streamCallback_example_def endsWith_def
      startsWith_def toInt_digits getPinForSwitch_def getPinForSwitch_example_def)

text \<open>
  C9, at the input where the code departs from it. The store holds \<open>false\<close> for relay 1,
  which the dashboard decodes as ON. The firmware (second sketch of part_000) writes HIGH,
  the level that switches the relay off, to pin 13; the example sketch (first sketch)
  writes LOW to pin 23.
\<close>

theorem firmware_polarity:
  "streamCallback relay1StoredFalse = [(13, HIGH)]
   \<and> newUiState (toBool relay1StoredFalse) = True
   \<and> streamCallback_example relay1StoredFalse = [(23, LOW)]"
  by (simp add: relay1StoredFalse_def streamCallback_def streamCallback_example_def
      endsWith_def startsWith_def toInt_digits getPinForSwitch_def
      getPinForSwitch_example_def newUiState_def)

end
